theory Spec2Isabelle
  imports Main "HOL-Library.AList"
begin

section \<open>JavaScript values the server manipulates\<close>

text \<open>
  Strings are \<^typ>\<open>string\<close>. A property that may be absent (\<open>undefined\<close> or
  \<open>null\<close>) is an \<^typ>\<open>'a option\<close>. JavaScript numbers are IEEE doubles; the server
  only parses, adds, formats and forwards them, so they are a type parameter \<open>'n\<close> and the
  built-ins used on them (\<open>parseFloat\<close>, \<open>+\<close> starting from \<open>0\<close>, \<open>toFixed(2)\<close>) are the
  fields of the record \<open>number_ops\<close> below.
\<close>

text \<open>\<open>a || b\<close> on strings: the empty string is falsy.\<close>

definition js_or :: "string \<Rightarrow> string \<Rightarrow> string" where
  "js_or a b = (if a = [] then b else a)"

text \<open>\<open>v || b\<close> where \<open>v\<close> is a string property that may be missing.\<close>

definition or_else :: "string option \<Rightarrow> string \<Rightarrow> string" where
  "or_else v b = (case v of None \<Rightarrow> b | Some a \<Rightarrow> js_or a b)"

text \<open>\<open>xs.join(sep)\<close>.\<close>

fun join :: "string \<Rightarrow> string list \<Rightarrow> string" where
  "join sep [] = []"
| "join sep [x] = x"
| "join sep (x # y # ys) = x @ sep @ join sep (y # ys)"

text \<open>Decimal rendering of a non-negative integer inside a template string.\<close>

definition digit_char :: "nat \<Rightarrow> char" where
  "digit_char d = ''0123456789'' ! d"

fun show_nat :: "nat \<Rightarrow> string" where
  "show_nat n = (if n < 10 then [digit_char n] else show_nat (n div 10) @ [digit_char (n mod 10)])"

declare show_nat.simps [simp del]

section \<open>Data\<close>

record servicelevel =
  sl_name :: string
  sl_token :: string

text \<open>One element of a shipment's \<open>rates\<close> array, as the carrier service returns it.\<close>

record rate =
  rate_provider :: string
  rate_servicelevel :: servicelevel
  rate_estimated_days :: "nat option"
  rate_amount :: string
  rate_currency :: string
  rate_object_id :: string

text \<open>The object pushed on \<open>grouped.package_rates\<close>.\<close>

record package_rate =
  pr_packageIndex :: nat
  pr_rate_id :: string
  pr_amount :: string

text \<open>A value of \<open>rateMap\<close>.\<close>

record 'n grouped =
  g_provider :: string
  g_servicelevel :: servicelevel
  g_estimated_days :: "nat option"
  g_total_amount :: 'n
  g_currency :: string
  g_package_rates :: "package_rate list"

text \<open>An element of \<open>completeRates\<close>: the aggregated quote sent to the client.\<close>

record quote =
  q_key :: string
  q_provider :: string
  q_servicelevel :: servicelevel
  q_estimated_days :: "nat option"
  q_amount :: string
  q_currency :: string
  q_package_rates :: "package_rate list"

text \<open>What each element of \<open>shipmentPromises\<close> resolves to.\<close>

record shipment =
  sh_packageIndex :: nat
  sh_shipment_id :: string
  sh_rates :: "rate list"

text \<open>The number built-ins, taken as parameters.\<close>

record 'n number_ops =
  parseFloat :: "string \<Rightarrow> 'n"
  num_add :: "'n \<Rightarrow> 'n \<Rightarrow> 'n"
  num_zero :: 'n
  toFixed2 :: "'n \<Rightarrow> string"

section \<open>Rate aggregation (the second half of \<open>getRatesForPackages\<close>)\<close>

text \<open>
  \<open>rateMap\<close> is a JavaScript \<open>Map\<close>: keys are compared as strings and iteration follows
  insertion order. It is modelled as an association list; \<^const>\<open>map_of\<close> is \<open>get\<close> and
  \<^const>\<open>AList.update\<close> is \<open>set\<close> (a new key goes to the end, an existing key keeps its
  place).
\<close>

type_synonym 'n rateMap = "(string \<times> 'n grouped) list"

definition rate_key :: "rate \<Rightarrow> string" where
  "rate_key r = rate_provider r @ ''-'' @ sl_token (rate_servicelevel r)"

text \<open>The entry stored when \<open>rateMap\<close> has no entry for the key yet.\<close>

definition new_group :: "'n number_ops \<Rightarrow> rate \<Rightarrow> 'n grouped" where
  "new_group N r =
     \<lparr> g_provider = rate_provider r,
       g_servicelevel = rate_servicelevel r,
       g_estimated_days = rate_estimated_days r,
       g_total_amount = num_zero N,
       g_currency = rate_currency r,
       g_package_rates = [] \<rparr>"

text \<open>The reference pushed on \<open>grouped.package_rates\<close> for a rate of the shipment with index \<open>idx\<close>.\<close>

definition package_rate_of :: "nat \<Rightarrow> rate \<Rightarrow> package_rate" where
  "package_rate_of idx r =
     \<lparr> pr_packageIndex = idx, pr_rate_id = rate_object_id r, pr_amount = rate_amount r \<rparr>"

text \<open>The body of the inner \<open>forEach\<close>, for one rate of the shipment with index \<open>idx\<close>.\<close>

definition add_rate :: "'n number_ops \<Rightarrow> nat \<Rightarrow> 'n rateMap \<Rightarrow> rate \<Rightarrow> 'n rateMap" where
  "add_rate N idx m r =
     (let key = rate_key r;
          grouped = (case map_of m key of None \<Rightarrow> new_group N r | Some g \<Rightarrow> g)
      in AList.update key
           (grouped\<lparr> g_total_amount := num_add N (g_total_amount grouped) (parseFloat N (rate_amount r)),
                     g_package_rates := g_package_rates grouped @ [package_rate_of idx r] \<rparr>)
           m)"

definition add_shipment :: "'n number_ops \<Rightarrow> 'n rateMap \<Rightarrow> shipment \<Rightarrow> 'n rateMap" where
  "add_shipment N m s = foldl (add_rate N (sh_packageIndex s)) m (sh_rates s)"

definition group_rates :: "'n number_ops \<Rightarrow> shipment list \<Rightarrow> 'n rateMap" where
  "group_rates N shipments = foldl (add_shipment N) [] shipments"

definition to_quote :: "'n number_ops \<Rightarrow> string \<times> 'n grouped \<Rightarrow> quote" where
  "to_quote N kv =
     \<lparr> q_key = fst kv,
       q_provider = g_provider (snd kv),
       q_servicelevel = g_servicelevel (snd kv),
       q_estimated_days = g_estimated_days (snd kv),
       q_amount = toFixed2 N (g_total_amount (snd kv)),
       q_currency = g_currency (snd kv),
       q_package_rates = g_package_rates (snd kv) \<rparr>"

text \<open>\<open>n\<close> is \<open>packages.length\<close>.\<close>

definition completeRates :: "'n number_ops \<Rightarrow> nat \<Rightarrow> 'n rateMap \<Rightarrow> quote list" where
  "completeRates N n m =
     map (to_quote N) (filter (\<lambda>kv. length (g_package_rates (snd kv)) = n) m)"

definition aggregate :: "'n number_ops \<Rightarrow> nat \<Rightarrow> shipment list \<Rightarrow> quote list" where
  "aggregate N n shipments = completeRates N n (group_rates N shipments)"

section \<open>The outside world\<close>

record address =
  addr_name :: string
  addr_street1 :: string
  addr_street2 :: "string option"
  addr_city :: string
  addr_state :: string
  addr_zip :: string
  addr_country :: string
  addr_phone :: "string option"
  addr_email :: "string option"

record destination =
  dest_name :: string
  dest_street :: string
  dest_street2 :: "string option"
  dest_city :: string
  dest_state :: string
  dest_zip :: string
  dest_phone :: "string option"
  dest_email :: "string option"

record 'n package =
  pkg_length :: 'n
  pkg_width :: 'n
  pkg_height :: 'n
  pkg_weight :: 'n
  pkg_description :: "string option"

record 'n parcel =
  parcel_length :: 'n
  parcel_width :: 'n
  parcel_height :: 'n
  parcel_distance_unit :: string
  parcel_weight :: 'n
  parcel_mass_unit :: string

record 'n shipmentData =
  sd_address_from :: address
  sd_address_to :: address
  sd_parcels :: "'n parcel list"
  sd_async :: bool

record transactionData =
  td_rate :: string
  td_label_file_type :: string
  td_async :: bool

text \<open>
  A call of \<open>shippoRequest\<close>: a POST to \<open>/shipments\<close> or to \<open>/transactions\<close> with its
  body.
\<close>

datatype 'n shippo_call = Shipments "'n shipmentData" | Transactions transactionData

text \<open>
  The promise returned by \<open>shippoRequest\<close> and \<open>printNodeRequest\<close> either rejects (a
  transport error, with its message) or resolves to \<open>{status, data}\<close>.
\<close>

datatype 'a http_result = Rejected string | Resolved nat 'a

text \<open>
  The properties of \<open>result.data\<close> the server reads. \<open>d_json\<close> stands for
  \<open>JSON.stringify(result.data)\<close>.
\<close>

record shippo_data =
  d_detail :: "string option"
  d_json :: string
  d_object_id :: string
  d_rates :: "rate list option"
  d_status :: string
  d_messages :: "string list option"
  d_tracking_number :: string
  d_label_url :: string
  d_tracking_url_provider :: string

record print_job =
  pj_printerId :: int
  pj_title :: string
  pj_contentType :: string
  pj_content :: string
  pj_source :: string

text \<open>The object returned by \<open>purchaseLabel\<close>.\<close>

record label_info =
  li_tracking_number :: string
  li_label_url :: string
  li_tracking_url :: string
  li_transaction_id :: string

text \<open>An element of the \<open>results\<close> array of \<open>purchaseAllLabels\<close>.\<close>

record label_result =
  lr_packageIndex :: nat
  lr_tracking_number :: string
  lr_label_url :: string
  lr_tracking_url :: string

text \<open>A value of \<open>completedOrders\<close>.\<close>

record orderData =
  od_method :: string
  od_delivery :: string
  od_total :: string
  od_labels :: "label_result list"
  od_completed_at :: string

text \<open>
  Console output is write-only. It is kept as a list of events, one per message (or block of
  messages) the source prints, carrying the values interpolated into the text.
\<close>

datatype 'n log_line =
    Log_purchasing nat
  | Log_printing_labels nat
  | Log_print_skipped "string list"
  | Log_sending_label nat
  | Log_label_sent nat string
  | Log_label_failed nat string
  | Log_all_labels_sent
  | Log_printnode_error string
  | Log_printing_slip
  | Log_slip_skipped
  | Log_slip_sent string
  | Log_slip_failed string
  | Log_slip_error string
  | Log_new_order destination "label_result list"
  | Log_packages "'n package list"
  | Log_order_stored string
  | Log_rates_error string
  | Log_purchase_error string

text \<open>
  The mutable state: the process-global \<open>completedOrders\<close> map, what has been sent to the
  two remote services and to the console so far, and whether the Node process has ended.
\<close>

record 'n world =
  completedOrders :: "string \<rightharpoonup> orderData"
  shippo_log :: "'n shippo_call list"
  printnode_log :: "print_job list"
  console :: "'n log_line list"
  exited :: bool

text \<open>
  The \<open>selectedRate\<close> object of a purchase body, with the properties the server reads. The
  handler reads \<open>selectedRate.servicelevel.name\<close> without a test, so that \<open>servicelevel\<close> may
  be found missing there.
\<close>

record selected_rate =
  sr_provider :: string
  sr_servicelevel :: "servicelevel option"
  sr_estimated_days :: "nat option"
  sr_amount :: string

text \<open>
  Everything the program takes from its environment: the number built-ins, the two remote
  services (each answers a request as a function of all requests received so far, the
  last one being the request answered), the PrintNode configuration constants, the template
  literal of \<open>generatePackingSlipHTML\<close> with the date it reads (only whether it throws and the
  text it gives matter here), \<open>Buffer.from(html).toString('base64')\<close>, \<open>decodeURIComponent\<close> (which throws on a
  malformed escape), and the message the engine gives the \<open>TypeError\<close> it throws when a
  property, named by the argument, is read of \<open>undefined\<close>.
\<close>

record 'n env =
  numbers :: "'n number_ops"
  shippo :: "'n shippo_call list \<Rightarrow> shippo_data http_result"
  printnode :: "print_job list \<Rightarrow> string http_result"
  PRINTNODE_API_KEY :: string
  PRINTNODE_PRINTER_ID :: int
  packing_slip_template ::
    "destination \<Rightarrow> 'n package list \<Rightarrow> label_result list \<Rightarrow> selected_rate option
       \<Rightarrow> string + string"
  base64 :: "string \<Rightarrow> string"
  decodeURIComponent :: "string \<Rightarrow> string + string"
  type_error :: "string \<Rightarrow> string"

definition ORIGIN_ADDRESS :: address where
  "ORIGIN_ADDRESS =
     \<lparr> addr_name = ''Wafaa Demian'', addr_street1 = ''90 W 22nd St'', addr_street2 = None,
       addr_city = ''Bayonne'', addr_state = ''NJ'', addr_zip = ''07002'', addr_country = ''US'',
       addr_phone = None, addr_email = None \<rparr>"

definition console_log :: "'n log_line \<Rightarrow> 'n world \<Rightarrow> 'n world" where
  "console_log l w = w\<lparr> console := console w @ [l] \<rparr>"

definition shippoRequest ::
  "'n env \<Rightarrow> 'n world \<Rightarrow> 'n shippo_call \<Rightarrow> shippo_data http_result \<times> 'n world" where
  "shippoRequest E w call =
     (shippo E (shippo_log w @ [call]), w\<lparr> shippo_log := shippo_log w @ [call] \<rparr>)"

definition printNodeRequest ::
  "'n env \<Rightarrow> 'n world \<Rightarrow> print_job \<Rightarrow> string http_result \<times> 'n world" where
  "printNodeRequest E w job =
     (printnode E (printnode_log w @ [job]), w\<lparr> printnode_log := printnode_log w @ [job] \<rparr>)"

section \<open>Quotes: \<open>getRatesForPackages\<close>\<close>

definition addressTo :: "destination \<Rightarrow> address" where
  "addressTo destination =
     \<lparr> addr_name = dest_name destination,
       addr_street1 = dest_street destination,
       addr_street2 = Some (or_else (dest_street2 destination) []),
       addr_city = dest_city destination,
       addr_state = dest_state destination,
       addr_zip = dest_zip destination,
       addr_country = ''US'',
       addr_phone = dest_phone destination,
       addr_email = dest_email destination \<rparr>"

definition shipmentData :: "destination \<Rightarrow> 'n package \<Rightarrow> 'n shipmentData" where
  "shipmentData destination pkg =
     \<lparr> sd_address_from = ORIGIN_ADDRESS,
       sd_address_to = addressTo destination,
       sd_parcels =
         [\<lparr> parcel_length = pkg_length pkg, parcel_width = pkg_width pkg,
            parcel_height = pkg_height pkg, parcel_distance_unit = ''in'',
            parcel_weight = pkg_weight pkg, parcel_mass_unit = ''lb'' \<rparr>],
       sd_async = False \<rparr>"

text \<open>
  What the async callback of \<open>packages.map\<close> does with the result of its request: the
  promise rejects with the transport error, or with the error thrown on a status other than
  201 and 200, or resolves to the shipment.
\<close>

definition shipment_of :: "nat \<Rightarrow> shippo_data http_result \<Rightarrow> string + shipment" where
  "shipment_of index result =
     (case result of
        Rejected e \<Rightarrow> Inl e
      | Resolved status data \<Rightarrow>
          if status \<noteq> 201 \<and> status \<noteq> 200
          then Inl (or_else (d_detail data)
                      (''Failed to create shipment for package '' @ show_nat (index + 1)))
          else Inr \<lparr> sh_packageIndex = index,
                     sh_shipment_id = d_object_id data,
                     sh_rates = (case d_rates data of None \<Rightarrow> [] | Some rs \<Rightarrow> rs) \<rparr>)"

text \<open>
  \<open>packages.map(async ...)\<close> starts every callback in index order; each runs up to its
  \<open>await\<close>, so the requests go out in index order before any answer is looked at.
\<close>

fun shipmentPromises ::
  "'n env \<Rightarrow> destination \<Rightarrow> 'n world \<Rightarrow> nat \<Rightarrow> 'n package list \<Rightarrow> (string + shipment) list \<times> 'n world" where
  "shipmentPromises E destination w index [] = ([], w)"
| "shipmentPromises E destination w index (pkg # pkgs) =
     (case shippoRequest E w (Shipments (shipmentData destination pkg)) of
        (result, w1) \<Rightarrow>
          (case shipmentPromises E destination w1 (index + 1) pkgs of
             (rest, w2) \<Rightarrow> (shipment_of index result # rest, w2)))"

text \<open>
  \<open>Promise.all\<close>. The promises settle in some order decided outside the program; \<open>order\<close>
  lists the indices of the promises in the order in which they settle (a promise that never
  settles is not listed). The result rejects with the reason of the first promise seen to
  reject, fulfils with all values in index order once every promise has fulfilled, and
  otherwise stays pending (\<open>None\<close>).
\<close>

fun first_rejection :: "nat list \<Rightarrow> (string + 'a) list \<Rightarrow> string option" where
  "first_rejection [] outcomes = None"
| "first_rejection (i # order) outcomes =
     (if i < length outcomes
      then (case outcomes ! i of Inl e \<Rightarrow> Some e | Inr v \<Rightarrow> first_rejection order outcomes)
      else first_rejection order outcomes)"

fun fulfilled :: "(string + 'a) list \<Rightarrow> 'a list" where
  "fulfilled [] = []"
| "fulfilled (Inl e # outcomes) = fulfilled outcomes"
| "fulfilled (Inr v # outcomes) = v # fulfilled outcomes"

definition promise_all :: "nat list \<Rightarrow> (string + 'a) list \<Rightarrow> (string + 'a list) option" where
  "promise_all order outcomes =
     (case first_rejection order outcomes of
        Some e \<Rightarrow> Some (Inl e)
      | None \<Rightarrow>
          if set [0..<length outcomes] \<subseteq> set order then Some (Inr (fulfilled outcomes))
          else None)"

definition getRatesForPackages ::
  "'n env \<Rightarrow> nat list \<Rightarrow> 'n world \<Rightarrow> 'n package list \<Rightarrow> destination
     \<Rightarrow> (string + quote list) option \<times> 'n world" where
  "getRatesForPackages E order w packages destination =
     (case shipmentPromises E destination w 0 packages of
        (promises, w1) \<Rightarrow>
          (case promise_all order promises of
             None \<Rightarrow> (None, w1)
           | Some (Inl e) \<Rightarrow> (Some (Inl e), w1)
           | Some (Inr shipments) \<Rightarrow>
               (Some (Inr (aggregate (numbers E) (length packages) shipments)), w1)))"

section \<open>Purchases: \<open>purchaseLabel\<close> and \<open>purchaseAllLabels\<close>\<close>

definition transactionData :: "string \<Rightarrow> transactionData" where
  "transactionData rateId =
     \<lparr> td_rate = rateId, td_label_file_type = ''PDF'', td_async = False \<rparr>"

text \<open>What \<open>purchaseLabel\<close> makes of the result of its request, once it has arrived.\<close>

definition label_of :: "shippo_data http_result \<Rightarrow> string + label_info" where
  "label_of result =
     (case result of
        Rejected e \<Rightarrow> Inl e
      | Resolved status data \<Rightarrow>
          if status \<noteq> 201 \<and> status \<noteq> 200
          then Inl (or_else (d_detail data) (js_or (d_json data) ''Failed to purchase label''))
          else if d_status data = ''ERROR''
          then Inl (js_or (join '', '' (case d_messages data of None \<Rightarrow> [] | Some ms \<Rightarrow> ms))
                      ''Label purchase failed'')
          else Inr \<lparr> li_tracking_number = d_tracking_number data,
                     li_label_url = d_label_url data,
                     li_tracking_url = d_tracking_url_provider data,
                     li_transaction_id = d_object_id data \<rparr>)"

definition purchaseLabel :: "'n env \<Rightarrow> 'n world \<Rightarrow> string \<Rightarrow> (string + label_info) \<times> 'n world" where
  "purchaseLabel E w rateId =
     (case shippoRequest E w (Transactions (transactionData rateId)) of
        (result, w1) \<Rightarrow> (label_of result, w1))"

text \<open>
  The \<open>for\<close> loop of \<open>purchaseAllLabels\<close>, from the current index on: \<open>results\<close> is the array
  built so far, the list holds the elements of \<open>packageRates\<close> still to be processed. An error
  thrown by \<open>purchaseLabel\<close> leaves the loop and the function; \<open>results\<close> is a local variable
  and goes with it.
\<close>

fun purchase_loop ::
  "'n env \<Rightarrow> 'n world \<Rightarrow> label_result list \<Rightarrow> package_rate list
     \<Rightarrow> (string + label_result list) \<times> 'n world" where
  "purchase_loop E w results [] = (Inr results, w)"
| "purchase_loop E w results (rate # rest) =
     (case purchaseLabel E (console_log (Log_purchasing (pr_packageIndex rate + 1)) w)
             (pr_rate_id rate) of
        (Inl e, w1) \<Rightarrow> (Inl e, w1)
      | (Inr labelInfo, w1) \<Rightarrow>
          purchase_loop E w1
            (results @ [\<lparr> lr_packageIndex = pr_packageIndex rate,
                           lr_tracking_number = li_tracking_number labelInfo,
                           lr_label_url = li_label_url labelInfo,
                           lr_tracking_url = li_tracking_url labelInfo \<rparr>])
            rest)"

definition purchaseAllLabels ::
  "'n env \<Rightarrow> 'n world \<Rightarrow> package_rate list \<Rightarrow> (string + label_result list) \<times> 'n world" where
  "purchaseAllLabels E w packageRates = purchase_loop E w [] packageRates"

section \<open>Printing and logging\<close>

text \<open>
  \<open>printLabels\<close> and \<open>printPackingSlip\<close> are \<open>async\<close> functions that the purchase handler
  calls without \<open>await\<close>. Such a call runs the function up to its first \<open>await\<close> (the print
  request is then on its way) and comes back; the rest of the function runs when the answer
  of the printer is delivered, after the caller has got to its own end. Each function is
  therefore given in two parts: the part run at the call, and the part run on the answers.
\<close>

definition label_job :: "'n env \<Rightarrow> nat \<Rightarrow> string \<Rightarrow> string \<Rightarrow> print_job" where
  "label_job E i url customerName =
     \<lparr> pj_printerId = PRINTNODE_PRINTER_ID E,
       pj_title = ''Shipping Label '' @ show_nat (i + 1) @ '' - '' @ customerName,
       pj_contentType = ''pdf_uri'',
       pj_content = url,
       pj_source = ''El Wafaa Shipping'' \<rparr>"

text \<open>
  A \<open>printLabels\<close> that waits at the \<open>await\<close> of its loop: the index \<open>i\<close> of the label whose
  job has been sent, the URLs after it, the customer name, and the answer on its way.
\<close>

record label_print_task =
  lp_index :: nat
  lp_rest :: "string list"
  lp_customerName :: string
  lp_result :: "string http_result"

text \<open>
  The head of the \<open>for\<close> loop inside the \<open>try\<close> of \<open>printLabels\<close>, at index \<open>i\<close> with the URLs
  from there on: past the last label the function returns \<open>true\<close>, otherwise it sends the job
  of label \<open>i\<close> and waits.
\<close>

fun printLabels_send ::
  "'n env \<Rightarrow> 'n world \<Rightarrow> nat \<Rightarrow> string list \<Rightarrow> string \<Rightarrow> (bool + label_print_task) \<times> 'n world" where
  "printLabels_send E w i [] customerName = (Inl True, console_log Log_all_labels_sent w)"
| "printLabels_send E w i (url # urls) customerName =
     (case printNodeRequest E (console_log (Log_sending_label (i + 1)) w)
             (label_job E i url customerName) of
        (result, w1) \<Rightarrow>
          (Inr \<lparr> lp_index = i, lp_rest = urls, lp_customerName = customerName,
                 lp_result = result \<rparr>, w1))"

text \<open>\<open>printLabels\<close> from the call to its first \<open>await\<close>, or to its end if it has none.\<close>

definition printLabels_begin ::
  "'n env \<Rightarrow> 'n world \<Rightarrow> string list \<Rightarrow> string \<Rightarrow> (bool + label_print_task) \<times> 'n world" where
  "printLabels_begin E w labelUrls customerName =
     (let w0 = console_log (Log_printing_labels (length labelUrls)) w in
      if PRINTNODE_API_KEY E = ''YOUR_PRINTNODE_API_KEY'' \<or> PRINTNODE_PRINTER_ID E = 0
      then (Inl False, console_log (Log_print_skipped labelUrls) w0)
      else printLabels_send E w0 0 labelUrls customerName)"

text \<open>
  \<open>printLabels\<close> from the delivery of the answer for label \<open>i\<close> to its end, with the URLs
  after that label: a rejected request ends the loop in the \<open>catch\<close>; otherwise the outcome is
  logged and the loop goes on, each further job being sent only now.
\<close>

fun printLabels_rest ::
  "'n env \<Rightarrow> 'n world \<Rightarrow> nat \<Rightarrow> string http_result \<Rightarrow> string list \<Rightarrow> string \<Rightarrow> bool \<times> 'n world" where
  "printLabels_rest E w i (Rejected e) urls customerName =
     (False, console_log (Log_printnode_error e) w)"
| "printLabels_rest E w i (Resolved status data) [] customerName =
     (True, console_log Log_all_labels_sent
              (console_log (if status = 201 then Log_label_sent (i + 1) data
                            else Log_label_failed (i + 1) data) w))"
| "printLabels_rest E w i (Resolved status data) (url # urls) customerName =
     (case printNodeRequest E
             (console_log (Log_sending_label (i + 2))
                (console_log (if status = 201 then Log_label_sent (i + 1) data
                              else Log_label_failed (i + 1) data) w))
             (label_job E (i + 1) url customerName) of
        (result, w1) \<Rightarrow> printLabels_rest E w1 (i + 1) result urls customerName)"

definition printLabels_finish ::
  "'n env \<Rightarrow> 'n world \<Rightarrow> bool + label_print_task \<Rightarrow> bool \<times> 'n world" where
  "printLabels_finish E w outcome =
     (case outcome of
        Inl returned \<Rightarrow> (returned, w)
      | Inr task \<Rightarrow>
          printLabels_rest E w (lp_index task) (lp_result task) (lp_rest task)
            (lp_customerName task))"

text \<open>\<open>printLabels\<close> as a whole, when nothing else runs between its two parts.\<close>

definition printLabels :: "'n env \<Rightarrow> 'n world \<Rightarrow> string list \<Rightarrow> string \<Rightarrow> bool \<times> 'n world" where
  "printLabels E w labelUrls customerName =
     (case printLabels_begin E w labelUrls customerName of
        (outcome, w1) \<Rightarrow> printLabels_finish E w1 outcome)"

text \<open>
  \<open>generatePackingSlipHTML\<close> maps over \<open>packages\<close> before it fills its template, which throws
  a \<open>TypeError\<close> when the request body had no \<open>packages\<close>.
\<close>

definition generatePackingSlipHTML ::
  "'n env \<Rightarrow> destination \<Rightarrow> 'n package list option \<Rightarrow> label_result list
     \<Rightarrow> selected_rate option \<Rightarrow> string + string" where
  "generatePackingSlipHTML E destination packages labelResults selectedRate =
     (case packages of
        None \<Rightarrow> Inl (type_error E ''map'')
      | Some ps \<Rightarrow> packing_slip_template E destination ps labelResults selectedRate)"

text \<open>
  \<open>printPackingSlip\<close> from the call to its \<open>await\<close>: it has returned already (\<open>Inl\<close>) when the
  printer is not configured or \<open>generatePackingSlipHTML\<close> throws, and otherwise waits for the answer to
  its job.
\<close>

definition printPackingSlip_begin ::
  "'n env \<Rightarrow> 'n world \<Rightarrow> destination \<Rightarrow> 'n package list option \<Rightarrow> label_result list
     \<Rightarrow> selected_rate option \<Rightarrow> (bool + string http_result) \<times> 'n world" where
  "printPackingSlip_begin E w destination packages labelResults selectedRate =
     (let w0 = console_log Log_printing_slip w in
      if PRINTNODE_API_KEY E = ''YOUR_PRINTNODE_API_KEY'' \<or> PRINTNODE_PRINTER_ID E = 0
      then (Inl False, console_log Log_slip_skipped w0)
      else (case generatePackingSlipHTML E destination packages labelResults selectedRate of
              Inl e \<Rightarrow> (Inl False, console_log (Log_slip_error e) w0)
            | Inr html \<Rightarrow>
                (case printNodeRequest E w0
                        \<lparr> pj_printerId = PRINTNODE_PRINTER_ID E,
                          pj_title = ''Packing Slip - '' @ dest_name destination,
                          pj_contentType = ''raw_base64'',
                          pj_content = base64 E html,
                          pj_source = ''El Wafaa Shipping'' \<rparr> of
                   (result, w1) \<Rightarrow> (Inr result, w1))))"

text \<open>\<open>printPackingSlip\<close> from the delivery of the answer to its end.\<close>

definition printPackingSlip_finish ::
  "'n world \<Rightarrow> bool + string http_result \<Rightarrow> bool \<times> 'n world" where
  "printPackingSlip_finish w outcome =
     (case outcome of
        Inl returned \<Rightarrow> (returned, w)
      | Inr (Rejected e) \<Rightarrow> (False, console_log (Log_slip_error e) w)
      | Inr (Resolved status data) \<Rightarrow>
          if status = 201 then (True, console_log (Log_slip_sent data) w)
          else (False, console_log (Log_slip_failed data) w))"

definition printPackingSlip ::
  "'n env \<Rightarrow> 'n world \<Rightarrow> destination \<Rightarrow> 'n package list option \<Rightarrow> label_result list
     \<Rightarrow> selected_rate option \<Rightarrow> bool \<times> 'n world" where
  "printPackingSlip E w destination packages labelResults selectedRate =
     (case printPackingSlip_begin E w destination packages labelResults selectedRate of
        (outcome, w1) \<Rightarrow> printPackingSlip_finish w1 outcome)"

text \<open>
  \<open>logOrderDetails\<close> is an ordinary function with no \<open>try\<close>: it prints the customer, the
  tracking numbers and the label URLs, and then reads \<open>packages.length\<close>, which throws a
  \<open>TypeError\<close> when the request body had no \<open>packages\<close>. What was printed before stays
  printed.
\<close>

definition logOrderDetails ::
  "'n env \<Rightarrow> 'n world \<Rightarrow> destination \<Rightarrow> label_result list \<Rightarrow> 'n package list option
     \<Rightarrow> (string + unit) \<times> 'n world" where
  "logOrderDetails E w destination labelResults packages =
     (let w1 = console_log (Log_new_order destination labelResults) w in
      case packages of
        None \<Rightarrow> (Inl (type_error E ''length''), w1)
      | Some ps \<Rightarrow> (Inr (), console_log (Log_packages ps) w1))"

section \<open>The request handlers\<close>

text \<open>
  The JSON bodies the handlers write: \<open>{exists: true, order}\<close>, \<open>{exists: false}\<close>,
  \<open>{rates}\<close>, \<open>{success: true, labels}\<close> and \<open>{error}\<close>; a response is a status code and a
  body.
\<close>

datatype body =
    Order_exists orderData
  | Order_missing
  | Rates_body "quote list"
  | Purchase_success "label_result list"
  | Error_body string

datatype response = Response nat body

text \<open>
  The parsed bodies of the two POST requests. The body of a purchase request is the JSON
  object the client sent: \<open>package_rates\<close> is an array of pairs, which \<open>purchaseAllLabels\<close>
  walks before anything else happens; \<open>packages\<close>, \<open>destination\<close>, \<open>pkgId\<close> and
  \<open>selectedRate\<close> may be missing from the body (\<open>None\<close>), and the handler tests only the
  last two before use.
\<close>

record 'n rates_request =
  rq_packages :: "'n package list"
  rq_destination :: destination

record 'n purchase_request =
  req_package_rates :: "package_rate list"
  req_packages :: "'n package list option"
  req_destination :: "destination option"
  req_pkgId :: "string option"
  req_selectedRate :: "selected_rate option"

text \<open>
  An error that nothing catches. The callback of \<open>http.createServer\<close> is an \<open>async\<close> function,
  so an error thrown in it rejects a promise that nobody handles, and Node ends the process
  on an unhandled rejection: the request gets no response and the \<open>completedOrders\<close> map,
  which lives in the memory of the process, is gone.
\<close>

definition process_exit :: "'n world \<Rightarrow> 'n world" where
  "process_exit w = w\<lparr> completedOrders := Map.empty, exited := True \<rparr>"

text \<open>
  \<open>GET /api/order/...\<close>, for a URL that has passed the route test
  \<open>req.url.startsWith('/api/order/')\<close>: \<open>replace\<close> then removes that prefix. The call of
  \<open>decodeURIComponent\<close> stands in the callback of \<open>http.createServer\<close> itself, outside any
  \<open>try\<close>: when it throws, no response is written (\<open>None\<close>) and the process ends.
\<close>

definition order_handler :: "'n env \<Rightarrow> 'n world \<Rightarrow> string \<Rightarrow> response option \<times> 'n world" where
  "order_handler E w url =
     (case decodeURIComponent E (drop (length ''/api/order/'') url) of
        Inl e \<Rightarrow> (None, process_exit w)
      | Inr pkgId \<Rightarrow>
          (case completedOrders w pkgId of
             Some existingOrder \<Rightarrow> (Some (Response 200 (Order_exists existingOrder)), w)
           | None \<Rightarrow> (Some (Response 200 Order_missing), w)))"

text \<open>\<open>POST /api/rates\<close>. No response is written while \<open>Promise.all\<close> stays pending.\<close>

definition rates_handler ::
  "'n env \<Rightarrow> nat list \<Rightarrow> 'n world \<Rightarrow> 'n rates_request \<Rightarrow> response option \<times> 'n world" where
  "rates_handler E order w req =
     (case getRatesForPackages E order w (rq_packages req) (rq_destination req) of
        (None, w1) \<Rightarrow> (None, w1)
      | (Some (Inr rates), w1) \<Rightarrow> (Some (Response 200 (Rates_body rates)), w1)
      | (Some (Inl e), w1) \<Rightarrow> (Some (Response 400 (Error_body e)), console_log (Log_rates_error e) w1))"

text \<open>\<open>pkgId && completedOrders.has(pkgId)\<close>.\<close>

definition order_already_completed :: "'n world \<Rightarrow> 'n purchase_request \<Rightarrow> bool" where
  "order_already_completed w req =
     (case req_pkgId req of
        None \<Rightarrow> False
      | Some pkgId \<Rightarrow> pkgId \<noteq> [] \<and> completedOrders w pkgId \<noteq> None)"

definition estimated_days_or_NA :: "nat option \<Rightarrow> string" where
  "estimated_days_or_NA d =
     (case d of None \<Rightarrow> ''N/A'' | Some n \<Rightarrow> if n = 0 then ''N/A'' else show_nat n)"

text \<open>
  The \<open>orderData\<close> object; \<open>now\<close> is \<open>new Date().toISOString()\<close>. Its first property reads
  \<open>selectedRate.servicelevel.name\<close>, which throws when a \<open>selectedRate\<close> was sent without its
  \<open>servicelevel\<close>.
\<close>

definition make_orderData ::
  "'n env \<Rightarrow> string \<Rightarrow> selected_rate option \<Rightarrow> label_result list \<Rightarrow> string + orderData" where
  "make_orderData E now selectedRate labelResults =
     (case selectedRate of
        None \<Rightarrow>
          Inr \<lparr> od_method = ''N/A'', od_delivery = ''N/A'', od_total = ''N/A'',
                od_labels = labelResults, od_completed_at = now \<rparr>
      | Some r \<Rightarrow>
          (case sr_servicelevel r of
             None \<Rightarrow> Inl (type_error E ''name'')
           | Some sl \<Rightarrow>
               Inr \<lparr> od_method = sr_provider r @ '' - '' @ sl_name sl,
                     od_delivery = estimated_days_or_NA (sr_estimated_days r) @ '' business days'',
                     od_total = ''$'' @ toFixed2 (numbers E) (parseFloat (numbers E) (sr_amount r)),
                     od_labels = labelResults,
                     od_completed_at = now \<rparr>))"

text \<open>The \<open>catch\<close> block of the purchase handler.\<close>

definition purchase_failed :: "string \<Rightarrow> 'n world \<Rightarrow> response \<times> 'n world" where
  "purchase_failed e w = (Response 400 (Error_body e), console_log (Log_purchase_error e) w)"

text \<open>
  The purchase handler from the call of \<open>logOrderDetails\<close> to its end: the order is logged,
  stored under a truthy \<open>pkgId\<close>, and the success response written; an error thrown on the
  way is caught by the \<open>catch\<close> block of the handler.
\<close>

definition purchase_record ::
  "'n env \<Rightarrow> string \<Rightarrow> 'n world \<Rightarrow> 'n purchase_request \<Rightarrow> destination \<Rightarrow> label_result list
     \<Rightarrow> response \<times> 'n world" where
  "purchase_record E now w req destination labelResults =
     (case logOrderDetails E w destination labelResults (req_packages req) of
        (Inl e, w1) \<Rightarrow> purchase_failed e w1
      | (Inr u, w1) \<Rightarrow>
          (case req_pkgId req of
             None \<Rightarrow> (Response 200 (Purchase_success labelResults), w1)
           | Some pkgId \<Rightarrow>
               if pkgId = [] then (Response 200 (Purchase_success labelResults), w1)
               else (case make_orderData E now (req_selectedRate req) labelResults of
                       Inl e \<Rightarrow> purchase_failed e w1
                     | Inr orderData \<Rightarrow>
                         (Response 200 (Purchase_success labelResults),
                          console_log (Log_order_stored pkgId)
                            (w1\<lparr> completedOrders := (completedOrders w1)(pkgId \<mapsto> orderData) \<rparr>)))))"

text \<open>
  The purchase handler from the point where \<open>await purchaseAllLabels(...)\<close> has come back
  with \<open>labelResults\<close>. Reading \<open>destination.name\<close> for the call of \<open>printLabels\<close> throws when the
  body had no \<open>destination\<close>. Otherwise \<open>printLabels\<close> and \<open>printPackingSlip\<close> are called
  without \<open>await\<close>, their promises are dropped, and each has sent its first print job when
  the handler goes on. The handler has no \<open>await\<close> from here on, so it runs to its response
  before any answer of the printer is delivered; the two print functions then run to their
  ends, whatever the handler has responded. In which order the answers to the first label
  and to the packing slip come back is for the printer to decide; here the labels are taken
  to their end first.
\<close>

definition purchase_complete ::
  "'n env \<Rightarrow> string \<Rightarrow> 'n world \<Rightarrow> 'n purchase_request \<Rightarrow> label_result list \<Rightarrow> response \<times> 'n world" where
  "purchase_complete E now w req labelResults =
     (case req_destination req of
        None \<Rightarrow> purchase_failed (type_error E ''name'') w
      | Some destination \<Rightarrow>
          (case printLabels_begin E w (map lr_label_url labelResults) (dest_name destination) of
             (labels_printing, w1) \<Rightarrow>
               (case printPackingSlip_begin E w1 destination (req_packages req) labelResults
                       (req_selectedRate req) of
                  (slip_printing, w2) \<Rightarrow>
                    (case purchase_record E now w2 req destination labelResults of
                       (resp, w3) \<Rightarrow>
                         (resp,
                          snd (printPackingSlip_finish
                                 (snd (printLabels_finish E w3 labels_printing))
                                 slip_printing))))))"

text \<open>\<open>POST /api/purchase\<close>, handled from start to end with no other request in between.\<close>

definition purchase_handler ::
  "'n env \<Rightarrow> string \<Rightarrow> 'n world \<Rightarrow> 'n purchase_request \<Rightarrow> response \<times> 'n world" where
  "purchase_handler E now w req =
     (if order_already_completed w req
      then (Response 400 (Error_body ''This order has already been completed''), w)
      else (case purchaseAllLabels E w (req_package_rates req) of
              (Inr labelResults, w1) \<Rightarrow> purchase_complete E now w1 req labelResults
            | (Inl e, w1) \<Rightarrow> (Response 400 (Error_body e), console_log (Log_purchase_error e) w1)))"

section \<open>The purchase handler, step by step\<close>

text \<open>
  The handler is an \<open>async\<close> function: at every \<open>await\<close> it hands control back to the event
  loop, which may run the handler of another request before the awaited answer is
  delivered. The only awaits of the purchase handler are those on the transaction requests,
  one per pair. A handler that is waiting is a task: the request, the \<open>results\<close> so far, the
  pair whose purchase is awaited, the pairs after it, and the answer on its way.
\<close>

record 'n purchase_task =
  pt_request :: "'n purchase_request"
  pt_results :: "label_result list"
  pt_rate :: package_rate
  pt_rest :: "package_rate list"
  pt_result :: "shippo_data http_result"

datatype 'n progress = Responded response | Awaiting "'n purchase_task"

text \<open>
  From the head of the loop: with no pair left the handler goes on to its end, otherwise it
  sends the next transaction request and waits.
\<close>

fun purchase_advance ::
  "'n env \<Rightarrow> string \<Rightarrow> 'n world \<Rightarrow> 'n purchase_request \<Rightarrow> label_result list \<Rightarrow> package_rate list
     \<Rightarrow> 'n progress \<times> 'n world" where
  "purchase_advance E now w req results [] =
     (case purchase_complete E now w req results of (resp, w1) \<Rightarrow> (Responded resp, w1))"
| "purchase_advance E now w req results (rate # rest) =
     (case shippoRequest E (console_log (Log_purchasing (pr_packageIndex rate + 1)) w)
             (Transactions (transactionData (pr_rate_id rate))) of
        (result, w1) \<Rightarrow>
          (Awaiting \<lparr> pt_request = req, pt_results = results, pt_rate = rate, pt_rest = rest,
                      pt_result = result \<rparr>, w1))"

text \<open>The handler from the arrival of the request to its first wait.\<close>

definition purchase_begin ::
  "'n env \<Rightarrow> string \<Rightarrow> 'n world \<Rightarrow> 'n purchase_request \<Rightarrow> 'n progress \<times> 'n world" where
  "purchase_begin E now w req =
     (if order_already_completed w req
      then (Responded (Response 400 (Error_body ''This order has already been completed'')), w)
      else purchase_advance E now w req [] (req_package_rates req))"

text \<open>The handler from the delivery of the awaited answer to its next wait, or to its end.\<close>

definition purchase_resume ::
  "'n env \<Rightarrow> string \<Rightarrow> 'n world \<Rightarrow> 'n purchase_task \<Rightarrow> 'n progress \<times> 'n world" where
  "purchase_resume E now w task =
     (case label_of (pt_result task) of
        Inl e \<Rightarrow> (Responded (Response 400 (Error_body e)), console_log (Log_purchase_error e) w)
      | Inr labelInfo \<Rightarrow>
          purchase_advance E now w (pt_request task)
            (pt_results task @ [\<lparr> lr_packageIndex = pr_packageIndex (pt_rate task),
                                   lr_tracking_number = li_tracking_number labelInfo,
                                   lr_label_url = li_label_url labelInfo,
                                   lr_tracking_url = li_tracking_url labelInfo \<rparr>])
            (pt_rest task))"

text \<open>A handler that runs to its end with nothing else handled in between.\<close>

function run_alone :: "'n env \<Rightarrow> string \<Rightarrow> 'n progress \<times> 'n world \<Rightarrow> response \<times> 'n world" where
  "run_alone E now (Responded resp, w) = (resp, w)"
| "run_alone E now (Awaiting task, w) = run_alone E now (purchase_resume E now w task)"
  by pat_completeness auto
termination
proof (relation "measure (\<lambda>(E, now, p, w).
         case p of Responded resp \<Rightarrow> 0 | Awaiting t \<Rightarrow> Suc (length (pt_rest t)))")
  fix E :: "'n env" and now task w
  show "((E, now, purchase_resume E now w task), (E, now, Awaiting task, w))
          \<in> measure (\<lambda>(E, now, p, w).
                case p of Responded resp \<Rightarrow> 0 | Awaiting t \<Rightarrow> Suc (length (pt_rest t)))"
    by (cases "label_of (pt_result task)"; cases "pt_rest task")
       (simp_all add: purchase_resume_def split: prod.splits)
qed simp

section \<open>The server, one request at a time\<close>




section \<open>Notions used to state the properties\<close>

text \<open>
  The answer the carrier service gives to the shipment request of the package with index
  \<open>j\<close>, when the requests of \<open>getRatesForPackages\<close> go out from the state \<open>w\<close>.
\<close>

definition shipment_reply ::
  "'n env \<Rightarrow> 'n world \<Rightarrow> 'n package list \<Rightarrow> destination \<Rightarrow> nat \<Rightarrow> shippo_data http_result" where
  "shipment_reply E w packages destination j =
     shippo E (shippo_log w @
       map (\<lambda>pkg. Shipments (shipmentData destination pkg)) (take (Suc j) packages))"

text \<open>
  The offers of all shipments in the order in which the two nested \<open>forEach\<close> loops meet
  them, each with the index of its package; and those among them under a given key.
\<close>

definition offers :: "shipment list \<Rightarrow> (nat \<times> rate) list" where
  "offers shipments = concat (map (\<lambda>s. map (Pair (sh_packageIndex s)) (sh_rates s)) shipments)"

definition offers_under :: "string \<Rightarrow> shipment list \<Rightarrow> (nat \<times> rate) list" where
  "offers_under k shipments = filter (\<lambda>ir. rate_key (snd ir) = k) (offers shipments)"

text \<open>An entry of \<open>rateMap\<close> after a run of further offers under its key.\<close>

definition extend_group :: "'n number_ops \<Rightarrow> 'n grouped \<Rightarrow> (nat \<times> rate) list \<Rightarrow> 'n grouped" where
  "extend_group N g irs =
     g\<lparr> g_total_amount :=
          foldl (\<lambda>a s. num_add N a (parseFloat N s)) (g_total_amount g) (map (rate_amount \<circ> snd) irs),
        g_package_rates := g_package_rates g @ map (\<lambda>ir. package_rate_of (fst ir) (snd ir)) irs \<rparr>"

text \<open>
  The sum of the amounts given as text, as the code takes it: from \<open>0\<close>, adding
  \<open>parseFloat\<close> of each text from left to right.
\<close>

definition float_sum :: "'n number_ops \<Rightarrow> string list \<Rightarrow> 'n" where
  "float_sum N amounts = foldl (\<lambda>a s. num_add N a (parseFloat N s)) (num_zero N) amounts"



section \<open>Concrete data for the evaluations\<close>

text \<open>
  An instance of the number built-ins: an amount is held as a whole number of cents, read
  off the digits of its text and printed with two decimals.
\<close>

definition ex_numbers :: "nat number_ops" where
  "ex_numbers =
     \<lparr> parseFloat =
         (\<lambda>s. foldl (\<lambda>a c. if c \<in> set ''0123456789'' then 10 * a + (of_char c - 48) else a) 0 s),
       num_add = (+),
       num_zero = 0,
       toFixed2 =
         (\<lambda>n. show_nat (n div 100) @ ''.'' @ show_nat (n mod 100 div 10) @ show_nat (n mod 10)) \<rparr>"

text \<open>
  \<open>decodeURIComponent\<close> on texts whose escapes are below \<open>%80\<close>: a \<open>%\<close> followed by two
  hexadecimal digits stands for the character with that code, and a \<open>%\<close> followed by anything
  else makes the function throw a \<open>URIError\<close>. The escapes from \<open>%80\<close> on, which are read
  as UTF-8 sequences, occur in no evaluation below; this instance answers them with the same
  error.
\<close>

definition hex_digit :: "char \<Rightarrow> nat option" where
  "hex_digit c =
     (if c \<in> set ''0123456789'' then Some (of_char c - 48)
      else if c \<in> set ''ABCDEF'' then Some (of_char c - 55)
      else if c \<in> set ''abcdef'' then Some (of_char c - 87)
      else None)"

fun ex_decodeURIComponent :: "string \<Rightarrow> string + string" where
  "ex_decodeURIComponent [] = Inr []"
| "ex_decodeURIComponent (c # cs) =
     (if c = CHR ''%''
      then (case cs of
              h # l # rest \<Rightarrow>
                (case (hex_digit h, hex_digit l) of
                   (Some a, Some b) \<Rightarrow>
                     if 16 * a + b < 128
                     then (case ex_decodeURIComponent rest of
                             Inl e \<Rightarrow> Inl e
                           | Inr s \<Rightarrow> Inr (char_of (16 * a + b) # s))
                     else Inl ''URI malformed''
                 | _ \<Rightarrow> Inl ''URI malformed'')
            | _ \<Rightarrow> Inl ''URI malformed'')
      else (case ex_decodeURIComponent cs of
              Inl e \<Rightarrow> Inl e
            | Inr s \<Rightarrow> Inr (c # s)))"

text \<open>
  An environment around a given carrier service. The printer refuses every connection and
  the packing slip template throws. The message of a \<open>TypeError\<close> is the one of current
  versions of Node.
\<close>

definition ex_env :: "(nat shippo_call list \<Rightarrow> shippo_data http_result) \<Rightarrow> nat env" where
  "ex_env carrier =
     \<lparr> numbers = ex_numbers,
       shippo = carrier,
       printnode = (\<lambda>jobs. Rejected ''connect ECONNREFUSED''),
       PRINTNODE_API_KEY = ''key'',
       PRINTNODE_PRINTER_ID = 42,
       packing_slip_template = (\<lambda>d ps ls r. Inl ''template failed''),
       base64 = (\<lambda>s. s),
       decodeURIComponent = ex_decodeURIComponent,
       type_error =
         (\<lambda>p. ''Cannot read properties of undefined (reading '' @ [CHR 0x27] @ p @ [CHR 0x27] @ '')'') \<rparr>"

definition ex_world :: "nat world" where
  "ex_world =
     \<lparr> completedOrders = Map.empty, shippo_log = [], printnode_log = [], console = [],
       exited = False \<rparr>"

definition ex_destination :: destination where
  "ex_destination =
     \<lparr> dest_name = ''Mona'', dest_street = ''1 Main St'', dest_street2 = None,
       dest_city = ''Newark'', dest_state = ''NJ'', dest_zip = ''07102'',
       dest_phone = None, dest_email = None \<rparr>"

definition ex_package :: "nat package" where
  "ex_package =
     \<lparr> pkg_length = 10, pkg_width = 8, pkg_height = 4, pkg_weight = 2, pkg_description = None \<rparr>"

definition ex_data :: shippo_data where
  "ex_data =
     \<lparr> d_detail = None, d_json = ''{}'', d_object_id = ''obj'', d_rates = None,
       d_status = ''SUCCESS'', d_messages = None, d_tracking_number = [],
       d_label_url = [], d_tracking_url_provider = [] \<rparr>"

definition ex_rate :: "string \<Rightarrow> string \<Rightarrow> string \<Rightarrow> string \<Rightarrow> rate" where
  "ex_rate provider token amount object_id =
     \<lparr> rate_provider = provider,
       rate_servicelevel = \<lparr> sl_name = token, sl_token = token \<rparr>,
       rate_estimated_days = Some 3,
       rate_amount = amount,
       rate_currency = ''USD'',
       rate_object_id = object_id \<rparr>"

text \<open>
  A carrier that quotes the first shipment twice under one provider and service level (two
  rates, as for two accounts with the same carrier) and has no rate for any later shipment.
\<close>

definition carrier_two_rates_first :: "nat shippo_call list \<Rightarrow> shippo_data http_result" where
  "carrier_two_rates_first calls =
     (if length calls = 1
      then Resolved 201 (ex_data\<lparr> d_rates :=
             Some [ex_rate ''USPS'' ''usps_priority'' ''5.00'' ''rate_a'',
                   ex_rate ''USPS'' ''usps_priority'' ''7.50'' ''rate_b''] \<rparr>)
      else Resolved 201 (ex_data\<lparr> d_rates := Some [] \<rparr>))"

text \<open>
  A carrier that refuses the \<open>k\<close>-th shipment it is asked for with status 400 and the given
  \<open>detail\<close>, and quotes one rate for every other shipment.
\<close>

definition carrier_refuses ::
  "nat \<Rightarrow> string option \<Rightarrow> nat shippo_call list \<Rightarrow> shippo_data http_result" where
  "carrier_refuses k detail calls =
     (if length calls = k then Resolved 400 (ex_data\<lparr> d_detail := detail \<rparr>)
      else Resolved 201 (ex_data\<lparr> d_rates := Some [ex_rate ''USPS'' ''usps_priority'' ''5.00'' ''rate_a''] \<rparr>))"

text \<open>
  A carrier that issues a label for every transaction, numbered by the count of requests it
  has received.
\<close>

definition carrier_sells :: "nat shippo_call list \<Rightarrow> shippo_data http_result" where
  "carrier_sells calls =
     Resolved 201 (ex_data\<lparr> d_tracking_number := ''TRK'' @ show_nat (length calls),
                             d_label_url := ''https://labels/'' @ show_nat (length calls) \<rparr>)"

text \<open>
  A carrier that issues the first label and answers the second transaction with status
  \<open>ERROR\<close> and the message \<open>Invalid rate\<close>.
\<close>

definition carrier_invalid_second :: "nat shippo_call list \<Rightarrow> shippo_data http_result" where
  "carrier_invalid_second calls =
     (if length calls = 2
      then Resolved 200 (ex_data\<lparr> d_status := ''ERROR'', d_messages := Some [''Invalid rate''] \<rparr>)
      else carrier_sells calls)"

definition ex_package_rates :: "package_rate list" where
  "ex_package_rates =
     [\<lparr> pr_packageIndex = 0, pr_rate_id = ''rate_a'', pr_amount = ''5.00'' \<rparr>,
      \<lparr> pr_packageIndex = 1, pr_rate_id = ''rate_b'', pr_amount = ''7.50'' \<rparr>]"

definition ex_purchase :: "string option \<Rightarrow> nat purchase_request" where
  "ex_purchase pkgId =
     \<lparr> req_package_rates = ex_package_rates,
       req_packages = Some [ex_package, ex_package],
       req_destination = Some ex_destination,
       req_pkgId = pkgId,
       req_selectedRate = None \<rparr>"

definition ex_order :: orderData where
  "ex_order =
     \<lparr> od_method = ''N/A'', od_delivery = ''N/A'', od_total = ''N/A'', od_labels = [],
       od_completed_at = ''2024-01-01T00:00:00.000Z'' \<rparr>"

definition ex_purchase_one :: "string option \<Rightarrow> nat purchase_request" where
  "ex_purchase_one pkgId =
     \<lparr> req_package_rates = [\<lparr> pr_packageIndex = 0, pr_rate_id = ''rate_a'', pr_amount = ''5.00'' \<rparr>],
       req_packages = Some [ex_package],
       req_destination = Some ex_destination,
       req_pkgId = pkgId,
       req_selectedRate = None \<rparr>"



definition ex_purchase_no_packages :: "string option \<Rightarrow> nat purchase_request" where
  "ex_purchase_no_packages pkgId = (ex_purchase_one pkgId)\<lparr> req_packages := None \<rparr>"





section \<open>What each operation leaves alone\<close>

lemma show_nat_digits [simp]:
  "show_nat 0 = ''0''" "show_nat (Suc 0) = ''1''" "show_nat (Suc (Suc 0)) = ''2''"
  "show_nat 1 = ''1''" "show_nat 2 = ''2''" "show_nat 3 = ''3''" "show_nat 5 = ''5''"
  "show_nat 7 = ''7''" "show_nat 12 = ''12''"
  by (simp_all add: show_nat.simps digit_char_def)

lemma console_log_frame [simp]:
  "completedOrders (console_log l w) = completedOrders w"
  "shippo_log (console_log l w) = shippo_log w"
  "printnode_log (console_log l w) = printnode_log w"
  "console (console_log l w) = console w @ [l]"
  "exited (console_log l w) = exited w"
  by (simp_all add: console_log_def)

lemma shippoRequest_frame [simp]:
  "fst (shippoRequest E w c) = shippo E (shippo_log w @ [c])"
  "completedOrders (snd (shippoRequest E w c)) = completedOrders w"
  "shippo_log (snd (shippoRequest E w c)) = shippo_log w @ [c]"
  "exited (snd (shippoRequest E w c)) = exited w"
  by (simp_all add: shippoRequest_def)

lemma printNodeRequest_frame [simp]:
  "completedOrders (snd (printNodeRequest E w j)) = completedOrders w"
  "shippo_log (snd (printNodeRequest E w j)) = shippo_log w"
  "exited (snd (printNodeRequest E w j)) = exited w"
  by (simp_all add: printNodeRequest_def)

lemma purchaseLabel_world:
  assumes "purchaseLabel E w r = (res, w')"
  shows "completedOrders w' = completedOrders w"
    and "shippo_log w' = shippo_log w @ [Transactions (transactionData r)]"
    and "exited w' = exited w"
  using assms
  by (auto simp add: purchaseLabel_def shippoRequest_def)

lemma purchaseLabel_console_log [simp]:
  "fst (purchaseLabel E (console_log l w) r) = fst (purchaseLabel E w r)"
  by (simp add: purchaseLabel_def shippoRequest_def)

lemma purchase_loop_ledger [simp]:
  "completedOrders (snd (purchase_loop E w acc rs)) = completedOrders w"
proof (induction rs arbitrary: w acc)
  case Nil
  show ?case by simp
next
  case (Cons r rs)
  obtain res w' where step:
    "purchaseLabel E (console_log (Log_purchasing (pr_packageIndex r + 1)) w) (pr_rate_id r) = (res, w')"
    by (cases "purchaseLabel E (console_log (Log_purchasing (pr_packageIndex r + 1)) w) (pr_rate_id r)")
  have "completedOrders w' = completedOrders w"
    using purchaseLabel_world(1) [OF step] by simp
  with step show ?case
    by (cases res) (simp_all add: Cons.IH)
qed

lemma purchase_loop_exited [simp]:
  "exited (snd (purchase_loop E w acc rs)) = exited w"
proof (induction rs arbitrary: w acc)
  case Nil
  show ?case by simp
next
  case (Cons r rs)
  obtain res w' where step:
    "purchaseLabel E (console_log (Log_purchasing (pr_packageIndex r + 1)) w) (pr_rate_id r) = (res, w')"
    by (cases "purchaseLabel E (console_log (Log_purchasing (pr_packageIndex r + 1)) w) (pr_rate_id r)")
  have "exited w' = exited w"
    using purchaseLabel_world(3) [OF step] by simp
  with step show ?case
    by (cases res) (simp_all add: Cons.IH)
qed

lemma printLabels_send_frame [simp]:
  "completedOrders (snd (printLabels_send E w i urls n)) = completedOrders w"
  "shippo_log (snd (printLabels_send E w i urls n)) = shippo_log w"
  "exited (snd (printLabels_send E w i urls n)) = exited w"
  by (cases urls; simp add: case_prod_beta)+

lemma printLabels_begin_frame [simp]:
  "completedOrders (snd (printLabels_begin E w urls n)) = completedOrders w"
  "shippo_log (snd (printLabels_begin E w urls n)) = shippo_log w"
  "exited (snd (printLabels_begin E w urls n)) = exited w"
  by (simp_all add: printLabels_begin_def Let_def)

lemma printLabels_rest_frame [simp]:
  "completedOrders (snd (printLabels_rest E w i result urls n)) = completedOrders w"
  "shippo_log (snd (printLabels_rest E w i result urls n)) = shippo_log w"
  "exited (snd (printLabels_rest E w i result urls n)) = exited w"
  by (induction E w i result urls n rule: printLabels_rest.induct; simp add: case_prod_beta)+

lemma printLabels_finish_frame [simp]:
  "completedOrders (snd (printLabels_finish E w outcome)) = completedOrders w"
  "shippo_log (snd (printLabels_finish E w outcome)) = shippo_log w"
  "exited (snd (printLabels_finish E w outcome)) = exited w"
  by (simp_all add: printLabels_finish_def split: sum.splits)

lemma printPackingSlip_begin_frame [simp]:
  "completedOrders (snd (printPackingSlip_begin E w d ps ls sr)) = completedOrders w"
  "shippo_log (snd (printPackingSlip_begin E w d ps ls sr)) = shippo_log w"
  "exited (snd (printPackingSlip_begin E w d ps ls sr)) = exited w"
  by (simp_all add: printPackingSlip_begin_def Let_def case_prod_beta split: sum.splits)

lemma printPackingSlip_finish_frame [simp]:
  "completedOrders (snd (printPackingSlip_finish w outcome)) = completedOrders w"
  "shippo_log (snd (printPackingSlip_finish w outcome)) = shippo_log w"
  "exited (snd (printPackingSlip_finish w outcome)) = exited w"
  by (simp_all add: printPackingSlip_finish_def split: sum.splits http_result.splits)

lemma logOrderDetails_frame [simp]:
  "completedOrders (snd (logOrderDetails E w d ls ps)) = completedOrders w"
  "shippo_log (snd (logOrderDetails E w d ls ps)) = shippo_log w"
  "exited (snd (logOrderDetails E w d ls ps)) = exited w"
  "fst (logOrderDetails E w d ls ps) =
     (case ps of None \<Rightarrow> Inl (type_error E ''length'') | Some packages \<Rightarrow> Inr ())"
  by (simp_all add: logOrderDetails_def Let_def split: option.splits)

text \<open>
  What the handler answers and stores once the labels are bought depends on the request
  and the labels only.
\<close>

lemma purchase_record_shippo_log [simp]:
  "shippo_log (snd (purchase_record E now w req d ls)) = shippo_log w"
  "exited (snd (purchase_record E now w req d ls)) = exited w"
  by (simp_all add: purchase_record_def purchase_failed_def case_prod_beta
      split: sum.splits option.splits)

lemma purchase_record_response:
  "fst (purchase_record E now w req d ls) =
     (case req_packages req of
        None \<Rightarrow> Response 400 (Error_body (type_error E ''length''))
      | Some ps \<Rightarrow>
          (case req_pkgId req of
             None \<Rightarrow> Response 200 (Purchase_success ls)
           | Some k \<Rightarrow>
               if k = [] then Response 200 (Purchase_success ls)
               else (case make_orderData E now (req_selectedRate req) ls of
                       Inl e \<Rightarrow> Response 400 (Error_body e)
                     | Inr od \<Rightarrow> Response 200 (Purchase_success ls))))"
  by (simp add: purchase_record_def purchase_failed_def logOrderDetails_def Let_def
      split: sum.splits option.splits)

lemma purchase_record_ledger:
  "completedOrders (snd (purchase_record E now w req d ls)) =
     (case req_packages req of
        None \<Rightarrow> completedOrders w
      | Some ps \<Rightarrow>
          (case req_pkgId req of
             None \<Rightarrow> completedOrders w
           | Some k \<Rightarrow>
               if k = [] then completedOrders w
               else (case make_orderData E now (req_selectedRate req) ls of
                       Inl e \<Rightarrow> completedOrders w
                     | Inr od \<Rightarrow> (completedOrders w)(k \<mapsto> od))))"
  by (simp add: purchase_record_def purchase_failed_def logOrderDetails_def Let_def
      split: sum.splits option.splits)

lemma purchase_complete_shippo_log [simp]:
  "shippo_log (snd (purchase_complete E now w req ls)) = shippo_log w"
  "exited (snd (purchase_complete E now w req ls)) = exited w"
  by (simp_all add: purchase_complete_def purchase_failed_def case_prod_beta split: option.splits)

lemma purchase_complete_response:
  "fst (purchase_complete E now w req ls) =
     (case req_destination req of
        None \<Rightarrow> Response 400 (Error_body (type_error E ''name''))
      | Some d \<Rightarrow>
          (case req_packages req of
             None \<Rightarrow> Response 400 (Error_body (type_error E ''length''))
           | Some ps \<Rightarrow>
               (case req_pkgId req of
                  None \<Rightarrow> Response 200 (Purchase_success ls)
                | Some k \<Rightarrow>
                    if k = [] then Response 200 (Purchase_success ls)
                    else (case make_orderData E now (req_selectedRate req) ls of
                            Inl e \<Rightarrow> Response 400 (Error_body e)
                          | Inr od \<Rightarrow> Response 200 (Purchase_success ls)))))"
  by (simp add: purchase_complete_def purchase_failed_def case_prod_beta purchase_record_response
      split: option.splits)

lemma purchase_complete_ledger:
  "completedOrders (snd (purchase_complete E now w req ls)) =
     (case req_destination req of
        None \<Rightarrow> completedOrders w
      | Some d \<Rightarrow>
          (case req_packages req of
             None \<Rightarrow> completedOrders w
           | Some ps \<Rightarrow>
               (case req_pkgId req of
                  None \<Rightarrow> completedOrders w
                | Some k \<Rightarrow>
                    if k = [] then completedOrders w
                    else (case make_orderData E now (req_selectedRate req) ls of
                            Inl e \<Rightarrow> completedOrders w
                          | Inr od \<Rightarrow> (completedOrders w)(k \<mapsto> od)))))"
  by (simp add: purchase_complete_def purchase_failed_def case_prod_beta purchase_record_ledger
      split: option.splits sum.splits)

section \<open>The purchase loop\<close>

text \<open>The loop over a list \<open>xs @ ys\<close> runs over \<open>xs\<close> and, unless that failed, goes on over \<open>ys\<close>.\<close>

lemma purchase_loop_append:
  "purchase_loop E w acc (xs @ ys) =
     (case purchase_loop E w acc xs of
        (Inl e, w1) \<Rightarrow> (Inl e, w1)
      | (Inr ls, w1) \<Rightarrow> purchase_loop E w1 ls ys)"
  by (induction xs arbitrary: w acc) (auto split: prod.splits sum.splits)

text \<open>
  A loop that comes to its end has sent one transaction per element, in order, and returns
  one result per element.
\<close>

lemma purchase_loop_success:
  "purchase_loop E w acc xs = (Inr ls, w1) \<Longrightarrow>
     shippo_log w1 = shippo_log w @ map (\<lambda>r. Transactions (transactionData (pr_rate_id r))) xs \<and>
     length ls = length acc + length xs \<and>
     map lr_packageIndex ls = map lr_packageIndex acc @ map pr_packageIndex xs"
proof (induction xs arbitrary: w acc)
  case Nil
  then show ?case by simp
next
  case (Cons x xs)
  let ?w0 = "console_log (Log_purchasing (pr_packageIndex x + 1)) w"
  obtain res w' where step: "purchaseLabel E ?w0 (pr_rate_id x) = (res, w')"
    by (cases "purchaseLabel E ?w0 (pr_rate_id x)")
  from Cons.prems step obtain info where res: "res = Inr info"
    by (cases res) auto
  have log': "shippo_log w' = shippo_log w @ [Transactions (transactionData (pr_rate_id x))]"
    using purchaseLabel_world(2) [OF step] by simp
  from Cons.prems step res
  have "purchase_loop E w'
          (acc @ [\<lparr> lr_packageIndex = pr_packageIndex x,
                     lr_tracking_number = li_tracking_number info,
                     lr_label_url = li_label_url info,
                     lr_tracking_url = li_tracking_url info \<rparr>]) xs = (Inr ls, w1)"
    by simp
  from Cons.IH [OF this] log' show ?case by simp
qed


section \<open>The duplicate-order check\<close>

text \<open>
  Claim C3. A purchase request whose \<open>pkgId\<close> is present, not empty and already a key of
  \<open>completedOrders\<close> is answered with status 400 and the duplicate-order message, and the
  whole state comes back as it was: no request has gone to the carrier (no label is
  purchased) or to the printer, and the ledger is untouched.
\<close>

theorem duplicate_order_rejected:
  assumes "req_pkgId req = Some pkgId" and "pkgId \<noteq> []" and "completedOrders w pkgId = Some order"
  shows "purchase_handler E now w req =
           (Response 400 (Error_body ''This order has already been completed''), w)"
  using assms by (simp add: purchase_handler_def order_already_completed_def)

text \<open>
  The theorem at a ledger that holds \<open>order-1\<close>, with a carrier that would sell every label
  asked for.
\<close>

theorem duplicate_order_rejected_witness:
  "purchase_handler (ex_env carrier_sells) ''2024-01-02T00:00:00.000Z''
     (ex_world\<lparr> completedOrders := [''order-1'' \<mapsto> ex_order] \<rparr>) (ex_purchase (Some ''order-1'')) =
   (Response 400 (Error_body ''This order has already been completed''),
    ex_world\<lparr> completedOrders := [''order-1'' \<mapsto> ex_order] \<rparr>)"
  using duplicate_order_rejected [of "ex_purchase (Some ''order-1'')" "''order-1''"
      "ex_world\<lparr> completedOrders := [''order-1'' \<mapsto> ex_order] \<rparr>" ex_order
      "ex_env carrier_sells" "''2024-01-02T00:00:00.000Z''"]
  by (simp add: ex_purchase_def)

section \<open>A purchase sequence that fails part-way\<close>

text \<open>
  Claim C4, as the code has it. Let the purchases for the pairs \<open>pre\<close> succeed with the
  results \<open>labels\<close>, and let the purchase for the next pair \<open>p\<close> fail with the message \<open>e\<close>.
  Then \<open>purchaseAllLabels\<close> on \<open>pre @ p # post\<close> fails with \<open>e\<close> and returns nothing else;
  the transactions it has sent are exactly those of \<open>pre\<close> and \<open>p\<close>, one per pair and in
  pair order, so none was sent for a pair of \<open>post\<close> and none undoes an earlier purchase;
  the ledger is unchanged; and \<open>labels\<close>, one result per pair of \<open>pre\<close> with that pair's
  package index, is what had been completed when the call failed.
\<close>

theorem purchase_sequence_failure:
  assumes "purchaseAllLabels E w pre = (Inr labels, w1)"
    and "purchaseLabel E w1 (pr_rate_id p) = (Inl e, w2)"
  shows "fst (purchaseAllLabels E w (pre @ p # post)) = Inl e \<and>
         shippo_log (snd (purchaseAllLabels E w (pre @ p # post))) =
           shippo_log w @ map (\<lambda>r. Transactions (transactionData (pr_rate_id r))) (pre @ [p]) \<and>
         completedOrders (snd (purchaseAllLabels E w (pre @ p # post))) = completedOrders w \<and>
         length labels = length pre \<and>
         map lr_packageIndex labels = map pr_packageIndex pre"
proof -
  let ?w1 = "console_log (Log_purchasing (pr_packageIndex p + 1)) w1"
  obtain res w' where step: "purchaseLabel E ?w1 (pr_rate_id p) = (res, w')"
    by (cases "purchaseLabel E ?w1 (pr_rate_id p)")
  have "fst (purchaseLabel E ?w1 (pr_rate_id p)) = Inl e"
    using assms(2) by simp
  with step have res: "res = Inl e"
    by simp
  have pre: "purchase_loop E w [] pre = (Inr labels, w1)"
    using assms(1) by (simp add: purchaseAllLabels_def)
  have all: "purchaseAllLabels E w (pre @ p # post) = (Inl e, w')"
    using pre step res by (simp add: purchaseAllLabels_def purchase_loop_append)
  have "shippo_log w' = shippo_log w1 @ [Transactions (transactionData (pr_rate_id p))]"
    using purchaseLabel_world(2) [OF step] by simp
  moreover have "completedOrders w' = completedOrders w1"
    using purchaseLabel_world(1) [OF step] by simp
  moreover have "completedOrders w1 = completedOrders w"
    using purchase_loop_ledger [of E w "[]" pre] pre by simp
  ultimately show ?thesis
    using purchase_loop_success [OF pre] all by simp
qed

text \<open>
  The theorem at two pairs, with a carrier that sells the first label and answers the second
  transaction with \<open>Invalid rate\<close>.
\<close>

theorem purchase_sequence_failure_witness:
  "fst (purchaseAllLabels (ex_env carrier_invalid_second) ex_world ex_package_rates) =
     Inl ''Invalid rate'' \<and>
   shippo_log (snd (purchaseAllLabels (ex_env carrier_invalid_second) ex_world ex_package_rates)) =
     [Transactions (transactionData ''rate_a''), Transactions (transactionData ''rate_b'')]"
proof -
  let ?E = "ex_env carrier_invalid_second"
  let ?a = "\<lparr> pr_packageIndex = 0, pr_rate_id = ''rate_a'', pr_amount = ''5.00'' \<rparr>"
  let ?b = "\<lparr> pr_packageIndex = 1, pr_rate_id = ''rate_b'', pr_amount = ''7.50'' \<rparr>"
  have pre: "purchaseAllLabels ?E ex_world [?a] =
     (Inr [\<lparr> lr_packageIndex = 0, lr_tracking_number = ''TRK1'',
              lr_label_url = ''https://labels/1'', lr_tracking_url = [] \<rparr>],
      ex_world\<lparr> shippo_log := [Transactions (transactionData ''rate_a'')],
                 console := [Log_purchasing 1] \<rparr>)"
    by (simp add: purchaseAllLabels_def purchaseLabel_def label_of_def shippoRequest_def
        console_log_def ex_env_def ex_world_def carrier_invalid_second_def carrier_sells_def
        ex_data_def)
  have fail: "purchaseLabel ?E
      (ex_world\<lparr> shippo_log := [Transactions (transactionData ''rate_a'')],
                 console := [Log_purchasing 1] \<rparr>) (pr_rate_id ?b) =
     (Inl ''Invalid rate'',
      ex_world\<lparr> shippo_log := [Transactions (transactionData ''rate_a''),
                                Transactions (transactionData ''rate_b'')],
                 console := [Log_purchasing 1] \<rparr>)"
    by (simp add: purchaseLabel_def label_of_def shippoRequest_def js_or_def
        ex_env_def ex_world_def carrier_invalid_second_def ex_data_def)
  have pairs: "ex_package_rates = [?a] @ ?b # []"
    by (simp add: ex_package_rates_def)
  from purchase_sequence_failure [OF pre fail, of "[]"] show ?thesis
    unfolding pairs by (simp add: ex_world_def)
qed

text \<open>
  Against claim C4 as stated: with the same carrier and the same two pairs, the first label is
  purchased and the second purchase fails, yet what \<open>purchaseAllLabels\<close> hands back is the
  message alone, the handler answers 400 with that message alone, and the state differs from
  the initial one only by the two transactions sent and the console lines. The result
  completed for the first pair is neither returned nor kept anywhere.
\<close>

theorem partial_labels_discarded:
  "purchaseAllLabels (ex_env carrier_invalid_second) ex_world ex_package_rates =
     (Inl ''Invalid rate'',
      ex_world\<lparr> shippo_log := [Transactions (transactionData ''rate_a''),
                                Transactions (transactionData ''rate_b'')],
                 console := [Log_purchasing 1, Log_purchasing 2] \<rparr>) \<and>
   purchase_handler (ex_env carrier_invalid_second) ''10:00:00'' ex_world (ex_purchase (Some ''order-1'')) =
     (Response 400 (Error_body ''Invalid rate''),
      ex_world\<lparr> shippo_log := [Transactions (transactionData ''rate_a''),
                                Transactions (transactionData ''rate_b'')],
                 console := [Log_purchasing 1, Log_purchasing 2,
                             Log_purchase_error ''Invalid rate''] \<rparr>)"
proof -
  have run: "purchaseAllLabels (ex_env carrier_invalid_second) ex_world ex_package_rates =
     (Inl ''Invalid rate'',
      ex_world\<lparr> shippo_log := [Transactions (transactionData ''rate_a''),
                                Transactions (transactionData ''rate_b'')],
                 console := [Log_purchasing 1, Log_purchasing 2] \<rparr>)"
    by (simp add: purchaseAllLabels_def purchaseLabel_def label_of_def shippoRequest_def
        console_log_def js_or_def ex_env_def ex_world_def ex_package_rates_def
        carrier_invalid_second_def carrier_sells_def ex_data_def)
  have "\<not> order_already_completed ex_world (ex_purchase (Some ''order-1''))"
    by (simp add: order_already_completed_def ex_purchase_def ex_world_def)
  then have "purchase_handler (ex_env carrier_invalid_second) ''10:00:00'' ex_world
       (ex_purchase (Some ''order-1'')) =
     (Response 400 (Error_body ''Invalid rate''),
      console_log (Log_purchase_error ''Invalid rate'')
        (ex_world\<lparr> shippo_log := [Transactions (transactionData ''rate_a''),
                                  Transactions (transactionData ''rate_b'')],
                   console := [Log_purchasing 1, Log_purchasing 2] \<rparr>))"
    using run by (simp add: purchase_handler_def ex_purchase_def)
  with run show ?thesis
    by (simp add: console_log_def ex_world_def)
qed

section \<open>The ledger lookup\<close>

text \<open>
  Claim C8. The read does not complete for every request: the key is what
  \<open>decodeURIComponent\<close> makes of the path after \<open>/api/order/\<close>, and a path it cannot decode
  has no key. For every path that decodes, to \<open>pkgId\<close> say, the request is answered with
  status 200: with \<open>exists: true\<close> and the stored record when \<open>completedOrders\<close> has one under
  \<open>pkgId\<close>, with \<open>exists: false\<close> otherwise; the state, and with it the ledger, is returned
  unchanged.
\<close>

theorem order_lookup:
  assumes "decodeURIComponent E path = Inr pkgId"
  shows "order_handler E w (''/api/order/'' @ path) =
           (Some (Response 200 (case completedOrders w pkgId of
                                  Some order \<Rightarrow> Order_exists order
                                | None \<Rightarrow> Order_missing)), w)"
  using assms by (simp add: order_handler_def split: option.splits)

text \<open>
  The theorem at a stored key, at a key that is not stored, and at the stored key written
  with an escape.
\<close>

theorem order_lookup_witness:
  "order_handler (ex_env carrier_sells) (ex_world\<lparr> completedOrders := [''order-1'' \<mapsto> ex_order] \<rparr>)
       ''/api/order/order-1'' =
     (Some (Response 200 (Order_exists ex_order)),
      ex_world\<lparr> completedOrders := [''order-1'' \<mapsto> ex_order] \<rparr>) \<and>
   order_handler (ex_env carrier_sells) (ex_world\<lparr> completedOrders := [''order-1'' \<mapsto> ex_order] \<rparr>)
       ''/api/order/order-2'' =
     (Some (Response 200 Order_missing),
      ex_world\<lparr> completedOrders := [''order-1'' \<mapsto> ex_order] \<rparr>) \<and>
   order_handler (ex_env carrier_sells) (ex_world\<lparr> completedOrders := [''order-1'' \<mapsto> ex_order] \<rparr>)
       ''/api/order/order%2D1'' =
     (Some (Response 200 (Order_exists ex_order)),
      ex_world\<lparr> completedOrders := [''order-1'' \<mapsto> ex_order] \<rparr>)"
proof -
  let ?E = "ex_env carrier_sells"
  let ?w = "ex_world\<lparr> completedOrders := [''order-1'' \<mapsto> ex_order] \<rparr>"
  have plain: "decodeURIComponent ?E ''order-1'' = Inr ''order-1''"
    and other: "decodeURIComponent ?E ''order-2'' = Inr ''order-2''"
    by (simp_all add: ex_env_def)
  have escaped: "decodeURIComponent ?E ''order%2D1'' = Inr ''order-1''"
    by code_simp
  show ?thesis
    using order_lookup [OF plain, of ?w] order_lookup [OF other, of ?w]
      order_lookup [OF escaped, of ?w]
    by simp
qed

text \<open>
  A path that does not decode. \<open>GET /api/order/%\<close> reaches the handler, \<open>decodeURIComponent\<close>
  throws on the lone \<open>%\<close>, and the read fails: the request gets no response, the process
  ends, and the record stored under \<open>order-1\<close> is lost with it.
\<close>

theorem order_lookup_malformed:
  "order_handler (ex_env carrier_sells) (ex_world\<lparr> completedOrders := [''order-1'' \<mapsto> ex_order] \<rparr>)
       ''/api/order/%'' =
     (None, ex_world\<lparr> exited := True \<rparr>) \<and>
   completedOrders (ex_world\<lparr> completedOrders := [''order-1'' \<mapsto> ex_order] \<rparr>) ''order-1'' =
     Some ex_order \<and>
   completedOrders (ex_world\<lparr> exited := True \<rparr>) ''order-1'' = None"
  by (simp add: order_handler_def process_exit_def ex_env_def ex_world_def)


section \<open>The two views of the purchase handler agree\<close>

text \<open>
  Run with nothing in between, the steps of the handler give what \<open>purchase_handler\<close>
  gives.
\<close>

lemma run_alone_advance:
  "run_alone E now (purchase_advance E now w req results rates) =
     (case purchase_loop E w results rates of
        (Inr labelResults, w1) \<Rightarrow> purchase_complete E now w1 req labelResults
      | (Inl e, w1) \<Rightarrow> (Response 400 (Error_body e), console_log (Log_purchase_error e) w1))"
proof (induction rates arbitrary: w results)
  case Nil
  show ?case by (simp split: prod.splits)
next
  case (Cons rate rest)
  show ?case
    by (simp add: purchase_resume_def purchaseLabel_def Cons.IH split: prod.splits sum.splits)
qed

lemma run_alone_handler:
  "run_alone E now (purchase_begin E now w req) = purchase_handler E now w req"
  by (simp add: purchase_begin_def purchase_handler_def purchaseAllLabels_def run_alone_advance)

text \<open>
  Step by step, the ledger changes only in the step that ends a handler whose purchases all
  succeeded, and then only at the key of its request.
\<close>

lemma purchase_advance_ledger:
  "completedOrders (snd (purchase_advance E now w req results rates)) =
     (case rates of
        [] \<Rightarrow> completedOrders (snd (purchase_complete E now w req results))
      | rate # rest \<Rightarrow> completedOrders w)"
  by (cases rates) (simp_all add: case_prod_beta)

lemma purchase_begin_ledger:
  "completedOrders (snd (purchase_begin E now w req)) =
     (if \<not> order_already_completed w req \<and> req_package_rates req = []
      then completedOrders (snd (purchase_complete E now w req []))
      else completedOrders w)"
  by (cases "req_package_rates req") (simp_all add: purchase_begin_def case_prod_beta)

lemma purchase_resume_ledger:
  "completedOrders (snd (purchase_resume E now w task)) =
     (case label_of (pt_result task) of
        Inl e \<Rightarrow> completedOrders w
      | Inr labelInfo \<Rightarrow>
          if pt_rest task = []
          then completedOrders (snd (purchase_complete E now w (pt_request task)
                 (pt_results task @ [\<lparr> lr_packageIndex = pr_packageIndex (pt_rate task),
                                        lr_tracking_number = li_tracking_number labelInfo,
                                        lr_label_url = li_label_url labelInfo,
                                        lr_tracking_url = li_tracking_url labelInfo \<rparr>])))
          else completedOrders w)"
  by (cases "label_of (pt_result task)"; cases "pt_rest task")
     (simp_all add: purchase_resume_def case_prod_beta)

text \<open>The duplicate check answers at once, before the handler ever waits.\<close>

lemma purchase_begin_duplicate:
  assumes "req_pkgId req = Some pkgId" and "pkgId \<noteq> []" and "completedOrders w pkgId = Some order"
  shows "purchase_begin E now w req =
           (Responded (Response 400 (Error_body ''This order has already been completed'')), w)"
  using assms by (simp add: purchase_begin_def order_already_completed_def)

section \<open>The ledger under requests handled one at a time\<close>

lemma shipmentPromises_frame [simp]:
  "completedOrders (snd (shipmentPromises E d w i pkgs)) = completedOrders w"
  "exited (snd (shipmentPromises E d w i pkgs)) = exited w"
  by (induction pkgs arbitrary: w i; simp add: case_prod_beta)+

lemma getRatesForPackages_frame [simp]:
  "completedOrders (snd (getRatesForPackages E order w pkgs d)) = completedOrders w"
  "exited (snd (getRatesForPackages E order w pkgs d)) = exited w"
  by (simp_all add: getRatesForPackages_def case_prod_beta split: option.splits sum.splits)

lemma rates_handler_frame [simp]:
  "completedOrders (snd (rates_handler E order w req)) = completedOrders w"
  "exited (snd (rates_handler E order w req)) = exited w"
  by (simp_all add: rates_handler_def case_prod_beta split: option.splits sum.splits)

lemma purchase_handler_exited [simp]:
  "exited (snd (purchase_handler E now w req)) = exited w"
  by (simp add: purchase_handler_def purchaseAllLabels_def case_prod_beta split: sum.splits)

lemma purchase_handler_ledger:
  "completedOrders (snd (purchase_handler E now w req)) =
     (if order_already_completed w req then completedOrders w
      else (case fst (purchaseAllLabels E w (req_package_rates req)) of
              Inl e \<Rightarrow> completedOrders w
            | Inr labels \<Rightarrow>
                (case req_destination req of
                   None \<Rightarrow> completedOrders w
                 | Some d \<Rightarrow>
                     (case req_packages req of
                        None \<Rightarrow> completedOrders w
                      | Some ps \<Rightarrow>
                          (case req_pkgId req of
                             None \<Rightarrow> completedOrders w
                           | Some k \<Rightarrow>
                               if k = [] then completedOrders w
                               else (case make_orderData E now (req_selectedRate req) labels of
                                       Inl e \<Rightarrow> completedOrders w
                                     | Inr od \<Rightarrow> (completedOrders w)(k \<mapsto> od)))))))"
proof (cases "order_already_completed w req")
  case True
  then show ?thesis by (simp add: purchase_handler_def)
next
  case False
  obtain out w1 where run: "purchaseAllLabels E w (req_package_rates req) = (out, w1)"
    by (cases "purchaseAllLabels E w (req_package_rates req)")
  have "completedOrders w1 = completedOrders w"
    by (metis purchase_loop_ledger purchaseAllLabels_def run snd_conv)
  with False run show ?thesis
    by (cases out)
       (simp_all add: purchase_handler_def purchase_complete_ledger split: option.splits sum.splits)
qed












section \<open>Printing, logging and the outcome of a purchase\<close>

lemma purchase_loop_carrier_only:
  assumes "shippo E' = shippo E"
  shows "purchase_loop E' w acc rs = purchase_loop E w acc rs"
proof (induction rs arbitrary: w acc)
  case Nil
  show ?case by simp
next
  case (Cons r rs)
  have "purchaseLabel E' w0 rateId = purchaseLabel E w0 rateId" for w0 rateId
    using assms by (simp add: purchaseLabel_def shippoRequest_def)
  then show ?case
    by (simp add: Cons.IH split: prod.splits sum.splits)
qed

lemma make_orderData_env:
  assumes "numbers E' = numbers E" and "type_error E' = type_error E"
  shows "make_orderData E' now sr ls = make_orderData E now sr ls"
  using assms by (simp add: make_orderData_def split: option.splits)

lemma purchase_handler_response:
  "fst (purchase_handler E now w req) =
     (if order_already_completed w req
      then Response 400 (Error_body ''This order has already been completed'')
      else (case fst (purchaseAllLabels E w (req_package_rates req)) of
              Inl e \<Rightarrow> Response 400 (Error_body e)
            | Inr labels \<Rightarrow>
                fst (purchase_complete E now (snd (purchaseAllLabels E w (req_package_rates req)))
                       req labels)))"
  by (cases "purchaseAllLabels E w (req_package_rates req)")
     (simp add: purchase_handler_def split: sum.splits)

lemma purchase_handler_shippo_log:
  "shippo_log (snd (purchase_handler E now w req)) =
     (if order_already_completed w req then shippo_log w
      else shippo_log (snd (purchaseAllLabels E w (req_package_rates req))))"
  by (cases "purchaseAllLabels E w (req_package_rates req)")
     (simp add: purchase_handler_def split: sum.splits)

text \<open>
  The printer cannot fail a purchase. \<open>printLabels\<close> and \<open>printPackingSlip\<close> are called
  without \<open>await\<close> and catch their own errors: whatever the printer service answers,
  whatever the PrintNode configuration is and whether or not the packing slip template
  throws, the response, the requests sent to the carrier and the ledger are the same.
\<close>

lemma printer_cannot_fail_purchase:
  assumes "E' = E\<lparr> printnode := printer, PRINTNODE_API_KEY := api_key,
                    PRINTNODE_PRINTER_ID := printer_id,
                    packing_slip_template := template, base64 := encode \<rparr>"
  shows "fst (purchase_handler E' now w req) = fst (purchase_handler E now w req)"
    and "shippo_log (snd (purchase_handler E' now w req)) =
         shippo_log (snd (purchase_handler E now w req))"
    and "completedOrders (snd (purchase_handler E' now w req)) =
         completedOrders (snd (purchase_handler E now w req))"
proof -
  have carrier: "shippo E' = shippo E" and numbers: "numbers E' = numbers E"
    and message: "type_error E' = type_error E"
    using assms by simp_all
  have bought: "purchaseAllLabels E' w (req_package_rates req) =
      purchaseAllLabels E w (req_package_rates req)"
    using purchase_loop_carrier_only [OF carrier, of w "[]" "req_package_rates req"]
    by (simp add: purchaseAllLabels_def)
  have built: "make_orderData E' now (req_selectedRate req) ls =
      make_orderData E now (req_selectedRate req) ls" for ls
    by (rule make_orderData_env [OF numbers message])
  show "fst (purchase_handler E' now w req) = fst (purchase_handler E now w req)"
    by (simp add: purchase_handler_response purchase_complete_response bought built message
        split: sum.splits option.splits)
  show "shippo_log (snd (purchase_handler E' now w req)) =
        shippo_log (snd (purchase_handler E now w req))"
    by (simp add: purchase_handler_shippo_log bought)
  show "completedOrders (snd (purchase_handler E' now w req)) =
        completedOrders (snd (purchase_handler E now w req))"
    by (simp add: purchase_handler_ledger bought built split: sum.splits option.splits)
qed

text \<open>
  Claim C7 does not hold of the code for logging. \<open>logOrderDetails\<close> is called inside the
  \<open>try\<close> of the handler, after the labels are bought and before the record is stored, and
  has no \<open>try\<close> of its own. The request below has a key, one pair, a destination and no
  \<open>packages\<close>; the printer refuses every connection. The carrier issues the label \<open>TRK1\<close>;
  the print functions log their failures (\<open>generatePackingSlipHTML\<close> throws as well, inside
  the \<open>try\<close> of \<open>printPackingSlip\<close>) and return;
  \<open>logOrderDetails\<close> throws on \<open>packages.length\<close>; the handler answers 400 with the message
  of the \<open>TypeError\<close> and stores nothing. The same request sent again is not a duplicate and
  buys a second label. With \<open>packages\<close> in the body, the same failures of the printer and of
  the template leave the response a success.
\<close>

theorem logging_failure_fails_purchase:
  "purchase_handler (ex_env carrier_sells) ''10:00:00'' ex_world
       (ex_purchase_no_packages (Some ''order-3'')) =
     (Response 400 (Error_body
        (''Cannot read properties of undefined (reading '' @ [CHR 0x27] @ ''length'' @
         [CHR 0x27] @ '')'')),
      ex_world
        \<lparr> shippo_log := [Transactions (transactionData ''rate_a'')],
          printnode_log :=
            [\<lparr> pj_printerId = 42, pj_title = ''Shipping Label 1 - Mona'',
                pj_contentType = ''pdf_uri'', pj_content = ''https://labels/1'',
                pj_source = ''El Wafaa Shipping'' \<rparr>],
          console :=
            [Log_purchasing 1, Log_printing_labels 1, Log_sending_label 1, Log_printing_slip,
             Log_slip_error
               (''Cannot read properties of undefined (reading '' @ [CHR 0x27] @ ''map'' @
                [CHR 0x27] @ '')''),
             Log_new_order ex_destination
               [\<lparr> lr_packageIndex = 0, lr_tracking_number = ''TRK1'',
                   lr_label_url = ''https://labels/1'', lr_tracking_url = [] \<rparr>],
             Log_purchase_error
               (''Cannot read properties of undefined (reading '' @ [CHR 0x27] @ ''length'' @
                [CHR 0x27] @ '')''),
             Log_printnode_error ''connect ECONNREFUSED''] \<rparr>) \<and>
   completedOrders (snd (purchase_handler (ex_env carrier_sells) ''10:00:00'' ex_world
       (ex_purchase_no_packages (Some ''order-3'')))) ''order-3'' = None \<and>
   shippo_log (snd (purchase_handler (ex_env carrier_sells) ''10:05:00''
       (snd (purchase_handler (ex_env carrier_sells) ''10:00:00'' ex_world
          (ex_purchase_no_packages (Some ''order-3''))))
       (ex_purchase_no_packages (Some ''order-3'')))) =
     [Transactions (transactionData ''rate_a''), Transactions (transactionData ''rate_a'')] \<and>
   fst (purchase_handler (ex_env carrier_sells) ''10:00:00'' ex_world
       (ex_purchase_one (Some ''order-3''))) =
     Response 200 (Purchase_success
       [\<lparr> lr_packageIndex = 0, lr_tracking_number = ''TRK1'',
           lr_label_url = ''https://labels/1'', lr_tracking_url = [] \<rparr>])"
proof -
  let ?E = "ex_env carrier_sells" and ?req = "ex_purchase_no_packages (Some ''order-3'')"
  let ?labels = "[\<lparr> lr_packageIndex = 0, lr_tracking_number = ''TRK1'',
                    lr_label_url = ''https://labels/1'', lr_tracking_url = [] \<rparr>]"
  let ?w1 = "ex_world\<lparr> shippo_log := [Transactions (transactionData ''rate_a'')],
                        console := [Log_purchasing 1] \<rparr>"
  have guard: "\<not> order_already_completed w ?req" if "completedOrders w ''order-3'' = None"
    for w :: "nat world"
    using that
    by (simp add: order_already_completed_def ex_purchase_no_packages_def ex_purchase_one_def)
  have bought: "purchaseAllLabels ?E ex_world (req_package_rates ?req) = (Inr ?labels, ?w1)"
    by (simp add: purchaseAllLabels_def purchaseLabel_def label_of_def shippoRequest_def
        console_log_def ex_env_def ex_world_def ex_purchase_no_packages_def ex_purchase_one_def
        carrier_sells_def ex_data_def)
  have completed: "purchase_complete ?E ''10:00:00'' ?w1 ?req ?labels =
     (Response 400 (Error_body
        (''Cannot read properties of undefined (reading '' @ [CHR 0x27] @ ''length'' @
         [CHR 0x27] @ '')'')),
      ex_world
        \<lparr> shippo_log := [Transactions (transactionData ''rate_a'')],
          printnode_log :=
            [\<lparr> pj_printerId = 42, pj_title = ''Shipping Label 1 - Mona'',
                pj_contentType = ''pdf_uri'', pj_content = ''https://labels/1'',
                pj_source = ''El Wafaa Shipping'' \<rparr>],
          console :=
            [Log_purchasing 1, Log_printing_labels 1, Log_sending_label 1, Log_printing_slip,
             Log_slip_error
               (''Cannot read properties of undefined (reading '' @ [CHR 0x27] @ ''map'' @
                [CHR 0x27] @ '')''),
             Log_new_order ex_destination ?labels,
             Log_purchase_error
               (''Cannot read properties of undefined (reading '' @ [CHR 0x27] @ ''length'' @
                [CHR 0x27] @ '')''),
             Log_printnode_error ''connect ECONNREFUSED''] \<rparr>)"
    by (simp add: purchase_complete_def purchase_record_def purchase_failed_def
        logOrderDetails_def printLabels_begin_def printLabels_finish_def
        printPackingSlip_begin_def printPackingSlip_finish_def generatePackingSlipHTML_def
        printNodeRequest_def
        label_job_def console_log_def Let_def ex_env_def ex_world_def
        ex_purchase_no_packages_def ex_purchase_one_def ex_destination_def)
  have first: "purchase_handler ?E ''10:00:00'' ex_world ?req =
      purchase_complete ?E ''10:00:00'' ?w1 ?req ?labels"
    using guard [of ex_world] bought
    by (simp add: purchase_handler_def ex_world_def)
  have missing: "completedOrders (snd (purchase_handler ?E ''10:00:00'' ex_world ?req)) ''order-3'' =
      None"
    unfolding first completed by (simp add: ex_world_def)
  have log1: "shippo_log (snd (purchase_handler ?E ''10:00:00'' ex_world ?req)) =
      [Transactions (transactionData ''rate_a'')]"
    by (simp add: first completed)
  have again: "shippo_log (snd (purchase_handler ?E ''10:05:00''
       (snd (purchase_handler ?E ''10:00:00'' ex_world ?req)) ?req)) =
     [Transactions (transactionData ''rate_a''), Transactions (transactionData ''rate_a'')]"
    using guard [OF missing] log1
    by (simp add: purchase_handler_shippo_log purchaseAllLabels_def purchaseLabel_def
        label_of_def shippoRequest_def case_prod_beta
        ex_purchase_no_packages_def ex_purchase_one_def split: sum.splits)
  have bought1: "fst (purchaseAllLabels ?E ex_world (req_package_rates (ex_purchase_one (Some ''order-3'')))) =
      Inr ?labels"
    by (simp add: purchaseAllLabels_def purchaseLabel_def label_of_def shippoRequest_def
        console_log_def ex_env_def ex_world_def ex_purchase_one_def carrier_sells_def ex_data_def)
  have success: "fst (purchase_handler ?E ''10:00:00'' ex_world (ex_purchase_one (Some ''order-3''))) =
      Response 200 (Purchase_success ?labels)"
    using bought1
    by (simp add: purchase_handler_response purchase_complete_response order_already_completed_def
        make_orderData_def ex_purchase_one_def ex_world_def)
  from completed first missing again success show ?thesis
    by (simp only: simp_thms)
qed

section \<open>Purchases without a key\<close>



section \<open>Quotes when a shipment cannot be created\<close>

text \<open>The promise of the package with index \<open>j\<close> settles with what its answer gives.\<close>

lemma shipmentPromises_length [simp]:
  "length (fst (shipmentPromises E d w idx pkgs)) = length pkgs"
  by (induction pkgs arbitrary: w idx) (simp_all add: case_prod_beta)

lemma shipmentPromises_nth:
  "j < length pkgs \<Longrightarrow>
     fst (shipmentPromises E d w idx pkgs) ! j = shipment_of (idx + j) (shipment_reply E w pkgs d j)"
proof (induction pkgs arbitrary: w idx j)
  case Nil
  then show ?case by simp
next
  case (Cons p ps)
  show ?case
  proof (cases j)
    case 0
    then show ?thesis
      by (simp add: case_prod_beta shipment_reply_def)
  next
    case (Suc j')
    with Cons.prems have "j' < length ps"
      by simp
    from Cons.IH [OF this, of "snd (shippoRequest E w (Shipments (shipmentData d p)))" "idx + 1"]
    show ?thesis
      using Suc by (simp add: case_prod_beta shipment_reply_def)
  qed
qed

text \<open>
  When some promise that settles is rejected, \<open>Promise.all\<close> sees a first one, and it is
  one of the rejected promises.
\<close>

lemma first_rejection_Some:
  assumes "i \<in> set order" and "i < length outcomes" and "outcomes ! i = Inl e"
  shows "\<exists>j e'. j \<in> set order \<and> j < length outcomes \<and> outcomes ! j = Inl e' \<and>
           first_rejection order outcomes = Some e'"
  using assms
proof (induction order)
  case Nil
  then show ?case by simp
next
  case (Cons a order)
  show ?case
  proof (cases "a < length outcomes \<and> isl (outcomes ! a)")
    case True
    then obtain e' where "outcomes ! a = Inl e'"
      by (cases "outcomes ! a") auto
    with True have "first_rejection (a # order) outcomes = Some e'"
      by simp
    with True \<open>outcomes ! a = Inl e'\<close> show ?thesis
      by (intro exI [of _ a] exI [of _ e']) simp
  next
    case False
    with Cons.prems have "i \<noteq> a"
      by auto
    with Cons.prems have "i \<in> set order"
      by simp
    from Cons.IH [OF this Cons.prems(2,3)] obtain j e' where
      "j \<in> set order" "j < length outcomes" "outcomes ! j = Inl e'"
      "first_rejection order outcomes = Some e'"
      by blast
    moreover from False have "first_rejection (a # order) outcomes = first_rejection order outcomes"
      by (cases "outcomes ! a") auto
    ultimately show ?thesis
      by (intro exI [of _ j] exI [of _ e']) simp
  qed
qed

text \<open>
  Claim C5. Let the shipment request of some package come back with a status other than 201
  and 200. Then the quote operation fails: \<open>getRatesForPackages\<close> rejects with the error
  message \<open>e\<close> of a package \<open>j\<close> whose promise was rejected (the first to settle), and the
  handler answers 400 with \<open>e\<close> as its only content, so no quote is returned. When the
  request of \<open>j\<close> came back with a status and a \<open>detail\<close> that is not the empty text, \<open>e\<close> is
  that \<open>detail\<close>; when it came back with a status and no \<open>detail\<close>, or an empty one, \<open>e\<close> is
  \<open>Failed to create shipment for package\<close> followed by \<open>j + 1\<close> in decimal; when the request
  itself failed, \<open>e\<close> is the message of the transport error. When no other package fails,
  \<open>j\<close> is the package of the hypothesis.
\<close>

theorem quote_fails_fast:
  assumes "i < length (rq_packages req)" and "i \<in> set order"
    and "shipment_reply E w (rq_packages req) (rq_destination req) i = Resolved status data"
    and "status \<noteq> 201" and "status \<noteq> 200"
  shows "\<exists>j e. j < length (rq_packages req) \<and> j \<in> set order \<and>
           fst (getRatesForPackages E order w (rq_packages req) (rq_destination req)) = Some (Inl e) \<and>
           fst (rates_handler E order w req) = Some (Response 400 (Error_body e)) \<and>
           (\<forall>s dt. shipment_reply E w (rq_packages req) (rq_destination req) j = Resolved s dt \<longrightarrow>
              s \<noteq> 201 \<and> s \<noteq> 200) \<and>
           (\<forall>s dt d. shipment_reply E w (rq_packages req) (rq_destination req) j = Resolved s dt \<longrightarrow>
              d_detail dt = Some d \<longrightarrow> d \<noteq> [] \<longrightarrow> e = d) \<and>
           (\<forall>s dt. shipment_reply E w (rq_packages req) (rq_destination req) j = Resolved s dt \<longrightarrow>
              d_detail dt = None \<or> d_detail dt = Some [] \<longrightarrow>
              e = ''Failed to create shipment for package '' @ show_nat (j + 1)) \<and>
           (\<forall>m. shipment_reply E w (rq_packages req) (rq_destination req) j = Rejected m \<longrightarrow>
              e = m) \<and>
           ((\<forall>j'. j' < length (rq_packages req) \<longrightarrow> j' \<noteq> i \<longrightarrow>
               (\<exists>s dt. shipment_reply E w (rq_packages req) (rq_destination req) j' = Resolved s dt \<and>
                       (s = 201 \<or> s = 200)))
              \<longrightarrow> j = i)"
proof -
  let ?pkgs = "rq_packages req" and ?d = "rq_destination req"
  let ?outs = "fst (shipmentPromises E ?d w 0 ?pkgs)"
  have nth: "?outs ! j = shipment_of j (shipment_reply E w ?pkgs ?d j)" if "j < length ?pkgs" for j
    using shipmentPromises_nth [OF that, of E ?d w 0] by simp
  have "?outs ! i = Inl (or_else (d_detail data)
          (''Failed to create shipment for package '' @ show_nat (i + 1)))"
    using assms by (simp add: nth shipment_of_def)
  from first_rejection_Some [OF assms(2) _ this] assms(1)
  obtain j e where j: "j \<in> set order" "j < length ?pkgs" "?outs ! j = Inl e"
    and first: "first_rejection order ?outs = Some e"
    by auto
  from first have rates: "fst (getRatesForPackages E order w ?pkgs ?d) = Some (Inl e)"
    by (simp add: getRatesForPackages_def promise_all_def case_prod_beta)
  then have resp: "fst (rates_handler E order w req) = Some (Response 400 (Error_body e))"
    by (cases "getRatesForPackages E order w ?pkgs ?d") (simp add: rates_handler_def)
  from j have fail: "shipment_of j (shipment_reply E w ?pkgs ?d j) = Inl e"
    by (simp add: nth)
  then have status: "\<forall>s dt. shipment_reply E w ?pkgs ?d j = Resolved s dt \<longrightarrow>
      s \<noteq> 201 \<and> s \<noteq> 200"
    by (auto simp add: shipment_of_def split: if_splits)
  from fail have detail: "\<forall>s dt d. shipment_reply E w ?pkgs ?d j = Resolved s dt \<longrightarrow>
      d_detail dt = Some d \<longrightarrow> d \<noteq> [] \<longrightarrow> e = d"
    by (auto simp add: shipment_of_def or_else_def js_or_def split: if_splits)
  from fail have generic: "\<forall>s dt. shipment_reply E w ?pkgs ?d j = Resolved s dt \<longrightarrow>
      d_detail dt = None \<or> d_detail dt = Some [] \<longrightarrow>
      e = ''Failed to create shipment for package '' @ show_nat (j + 1)"
    by (auto simp add: shipment_of_def or_else_def js_or_def split: if_splits)
  from fail have transport: "\<forall>m. shipment_reply E w ?pkgs ?d j = Rejected m \<longrightarrow> e = m"
    by (auto simp add: shipment_of_def)
  from fail have only: "(\<forall>j'. j' < length ?pkgs \<longrightarrow> j' \<noteq> i \<longrightarrow>
      (\<exists>s dt. shipment_reply E w ?pkgs ?d j' = Resolved s dt \<and> (s = 201 \<or> s = 200))) \<longrightarrow> j = i"
    using j(2) by (auto simp add: shipment_of_def)
  from j rates resp status detail generic transport only show ?thesis
    by blast
qed

text \<open>
  The theorem at two packages with one of them refused with status 400: the first, with no
  \<open>detail\<close>, the answer for the second arriving first; the second, with the \<open>detail\<close>
  \<open>Invalid address\<close>; and the second, with an empty \<open>detail\<close>.
\<close>

theorem quote_fails_fast_witness:
  "fst (rates_handler (ex_env (carrier_refuses 1 None)) [1, 0] ex_world
         \<lparr> rq_packages = [ex_package, ex_package], rq_destination = ex_destination \<rparr>) =
     Some (Response 400 (Error_body ''Failed to create shipment for package 1'')) \<and>
   fst (rates_handler (ex_env (carrier_refuses 2 (Some ''Invalid address''))) [0, 1] ex_world
         \<lparr> rq_packages = [ex_package, ex_package], rq_destination = ex_destination \<rparr>) =
     Some (Response 400 (Error_body ''Invalid address'')) \<and>
   fst (rates_handler (ex_env (carrier_refuses 2 (Some []))) [0, 1] ex_world
         \<lparr> rq_packages = [ex_package, ex_package], rq_destination = ex_destination \<rparr>) =
     Some (Response 400 (Error_body ''Failed to create shipment for package 2''))"
proof -
  let ?req = "\<lparr> rq_packages = [ex_package, ex_package], rq_destination = ex_destination \<rparr>"
  have at: "\<exists>e. fst (rates_handler (ex_env (carrier_refuses (Suc i) detail)) order ex_world ?req) =
                Some (Response 400 (Error_body e)) \<and>
              (\<forall>d. detail = Some d \<longrightarrow> d \<noteq> [] \<longrightarrow> e = d) \<and>
              (detail = None \<or> detail = Some [] \<longrightarrow>
                 e = ''Failed to create shipment for package '' @ show_nat (i + 1))"
    if i: "i < 2" "i \<in> set order" for i detail order
  proof -
    let ?E = "ex_env (carrier_refuses (Suc i) detail)"
    have reply: "shipment_reply ?E ex_world (rq_packages ?req) (rq_destination ?req) j =
        (if j = i then Resolved 400 (ex_data\<lparr> d_detail := detail \<rparr>)
         else Resolved 201
                (ex_data\<lparr> d_rates := Some [ex_rate ''USPS'' ''usps_priority'' ''5.00'' ''rate_a''] \<rparr>))"
      if "j < 2" for j
      using that
      by (simp add: shipment_reply_def ex_env_def ex_world_def carrier_refuses_def min_def)
    have refused: "shipment_reply ?E ex_world (rq_packages ?req) (rq_destination ?req) i =
        Resolved 400 (ex_data\<lparr> d_detail := detail \<rparr>)"
      using reply [OF i(1)] by simp
    have "i < length (rq_packages ?req)" and "(400 :: nat) \<noteq> 201" and "(400 :: nat) \<noteq> 200"
      using i by simp_all
    from quote_fails_fast [OF this(1) i(2) refused this(2,3)]
    obtain j e where j: "j < length (rq_packages ?req)"
      and resp: "fst (rates_handler ?E order ex_world ?req) = Some (Response 400 (Error_body e))"
      and detail: "\<forall>s dt d. shipment_reply ?E ex_world (rq_packages ?req) (rq_destination ?req) j =
          Resolved s dt \<longrightarrow> d_detail dt = Some d \<longrightarrow> d \<noteq> [] \<longrightarrow> e = d"
      and generic: "\<forall>s dt. shipment_reply ?E ex_world (rq_packages ?req) (rq_destination ?req) j =
          Resolved s dt \<longrightarrow> d_detail dt = None \<or> d_detail dt = Some [] \<longrightarrow>
          e = ''Failed to create shipment for package '' @ show_nat (j + 1)"
      and only: "(\<forall>j'. j' < length (rq_packages ?req) \<longrightarrow> j' \<noteq> i \<longrightarrow>
          (\<exists>s dt. shipment_reply ?E ex_world (rq_packages ?req) (rq_destination ?req) j' =
                    Resolved s dt \<and> (s = 201 \<or> s = 200))) \<longrightarrow> j = i"
      by blast
    have "\<forall>j'. j' < length (rq_packages ?req) \<longrightarrow> j' \<noteq> i \<longrightarrow>
          (\<exists>s dt. shipment_reply ?E ex_world (rq_packages ?req) (rq_destination ?req) j' =
                    Resolved s dt \<and> (s = 201 \<or> s = 200))"
      using reply by simp
    with only have "j = i"
      by blast
    with detail generic refused have
      "(\<forall>d. detail = Some d \<longrightarrow> d \<noteq> [] \<longrightarrow> e = d) \<and>
       (detail = None \<or> detail = Some [] \<longrightarrow>
          e = ''Failed to create shipment for package '' @ show_nat (i + 1))"
      by simp
    with resp show ?thesis
      by blast
  qed
  from at [of 0 "[1, 0]" None] at [of 1 "[0, 1]" "Some ''Invalid address''"]
    at [of 1 "[0, 1]" "Some []"]
  show ?thesis
    by (auto simp add: numeral_2_eq_2)
qed

section \<open>Which quotes are returned\<close>

text \<open>The two nested loops are one loop over all offers.\<close>

lemma group_rates_offers:
  "group_rates N shipments = foldl (\<lambda>m ir. add_rate N (fst ir) m (snd ir)) [] (offers shipments)"
proof -
  have "foldl (add_shipment N) m shipments =
        foldl (\<lambda>m ir. add_rate N (fst ir) m (snd ir)) m (offers shipments)" for m
    by (induction shipments arbitrary: m) (simp_all add: offers_def add_shipment_def foldl_map)
  then show ?thesis
    by (simp add: group_rates_def)
qed

lemma extend_group_Cons:
  "extend_group N (extend_group N g [ir]) irs = extend_group N g (ir # irs)"
  by (simp add: extend_group_def)

lemma map_of_add_rate:
  "map_of (add_rate N idx m r) k =
     (if rate_key r = k
      then Some (extend_group N (case map_of m k of None \<Rightarrow> new_group N r | Some g \<Rightarrow> g) [(idx, r)])
      else map_of m k)"
  by (simp add: add_rate_def Let_def update_conv' extend_group_def)

lemma distinct_add_rate:
  "distinct (map fst m) \<Longrightarrow> distinct (map fst (add_rate N idx m r))"
  by (simp add: add_rate_def Let_def distinct_update)

lemma map_of_fold_add_rate:
  "map_of (foldl (\<lambda>m ir. add_rate N (fst ir) m (snd ir)) m xs) k =
     (case filter (\<lambda>ir. rate_key (snd ir) = k) xs of
        [] \<Rightarrow> map_of m k
      | ir # irs \<Rightarrow>
          Some (extend_group N (case map_of m k of None \<Rightarrow> new_group N (snd ir) | Some g \<Rightarrow> g)
                  (ir # irs)))"
proof (induction xs arbitrary: m)
  case Nil
  show ?case by simp
next
  case (Cons x xs)
  show ?case
  proof (cases "rate_key (snd x) = k")
    case False
    then show ?thesis
      by (simp add: Cons.IH map_of_add_rate split: list.splits)
  next
    case True
    then show ?thesis
      by (simp add: Cons.IH map_of_add_rate extend_group_Cons split: list.splits)
  qed
qed

lemma distinct_fold_add_rate:
  "distinct (map fst m) \<Longrightarrow>
     distinct (map fst (foldl (\<lambda>m ir. add_rate N (fst ir) m (snd ir)) m xs))"
  by (induction xs arbitrary: m) (simp_all add: distinct_add_rate)

text \<open>The entry of a key in \<open>rateMap\<close> after all shipments.\<close>

lemma map_of_group_rates:
  "map_of (group_rates N shipments) k =
     (case offers_under k shipments of
        [] \<Rightarrow> None
      | ir # irs \<Rightarrow> Some (extend_group N (new_group N (snd ir)) (ir # irs)))"
  by (simp add: group_rates_offers map_of_fold_add_rate offers_under_def split: list.splits)

lemma distinct_group_rates: "distinct (map fst (group_rates N shipments))"
  by (simp add: group_rates_offers distinct_fold_add_rate)

lemma aggregate_set:
  "set (aggregate N n shipments) =
     {to_quote N (k, g) | k g. map_of (group_rates N shipments) k = Some g \<and>
                                length (g_package_rates g) = n}"
proof -
  have "(k, g) \<in> set (group_rates N shipments) \<longleftrightarrow> map_of (group_rates N shipments) k = Some g"
    for k g
    using distinct_group_rates [of N shipments] by (auto intro: map_of_is_SomeI dest: map_of_SomeD)
  then show ?thesis
    by (auto simp add: aggregate_def completeRates_def image_iff) force+
qed


lemma group_entry:
  assumes "map_of (group_rates N shipments) k = Some g"
  obtains ir irs where "offers_under k shipments = ir # irs"
    and "g = extend_group N (new_group N (snd ir)) (ir # irs)"
  using assms by (auto simp add: map_of_group_rates split: list.splits)

text \<open>Every quote returned holds exactly \<open>n\<close> references.\<close>

lemma aggregate_package_rates_length:
  assumes "q \<in> set (aggregate N n shipments)"
  shows "length (q_package_rates q) = n"
  using assms by (auto simp add: aggregate_def completeRates_def to_quote_def)

text \<open>
  A key is returned exactly when the number of offers under it, over all shipments, is the
  number of packages (and is not zero).
\<close>

lemma aggregate_key_iff:
  "k \<in> q_key ` set (aggregate N n shipments) \<longleftrightarrow>
     offers_under k shipments \<noteq> [] \<and> length (offers_under k shipments) = n"
proof
  assume "k \<in> q_key ` set (aggregate N n shipments)"
  then obtain g where g: "map_of (group_rates N shipments) k = Some g"
    and n: "length (g_package_rates g) = n"
    by (auto simp add: aggregate_set to_quote_def)
  from g obtain ir irs where "offers_under k shipments = ir # irs"
    and "g = extend_group N (new_group N (snd ir)) (ir # irs)"
    by (rule group_entry)
  with n show "offers_under k shipments \<noteq> [] \<and> length (offers_under k shipments) = n"
    by (simp add: extend_group_def new_group_def)
next
  assume *: "offers_under k shipments \<noteq> [] \<and> length (offers_under k shipments) = n"
  then obtain ir irs where irs: "offers_under k shipments = ir # irs"
    by (cases "offers_under k shipments") auto
  let ?g = "extend_group N (new_group N (snd ir)) (ir # irs)"
  have "map_of (group_rates N shipments) k = Some ?g"
    by (simp add: map_of_group_rates irs)
  moreover have "length (g_package_rates ?g) = n"
    using * irs by (simp add: extend_group_def new_group_def)
  ultimately have "to_quote N (k, ?g) \<in> set (aggregate N n shipments)"
    by (auto simp add: aggregate_set)
  then have "q_key (to_quote N (k, ?g)) \<in> q_key ` set (aggregate N n shipments)"
    by (rule imageI)
  then show "k \<in> q_key ` set (aggregate N n shipments)"
    by (simp add: to_quote_def)
qed

text \<open>
  The amount of a quote is \<open>toFixed(2)\<close> of the sum, taken from left to right in the
  number arithmetic, of the parsed amounts of its references.
\<close>

lemma aggregate_amount:
  assumes "q \<in> set (aggregate N n shipments)"
  shows "q_amount q = toFixed2 N (float_sum N (map pr_amount (q_package_rates q)))"
proof -
  from assms obtain k g where q: "q = to_quote N (k, g)"
    and g: "map_of (group_rates N shipments) k = Some g"
    by (auto simp add: aggregate_set)
  from g obtain ir irs where "g = extend_group N (new_group N (snd ir)) (ir # irs)"
    by (rule group_entry)
  then have "g_total_amount g = float_sum N (map pr_amount (g_package_rates g))"
    by (simp add: extend_group_def new_group_def float_sum_def package_rate_of_def comp_def)
  with q show ?thesis
    by (simp add: to_quote_def)
qed

text \<open>
  A quote takes its descriptive fields from the first offer met under its string key, and
  refers to every offer met under that key.
\<close>

lemma aggregate_first_offer:
  assumes "q \<in> set (aggregate N n shipments)"
  shows "\<exists>ir irs. offers_under (q_key q) shipments = ir # irs \<and>
           q_provider q = rate_provider (snd ir) \<and>
           q_servicelevel q = rate_servicelevel (snd ir) \<and>
           q_estimated_days q = rate_estimated_days (snd ir) \<and>
           q_currency q = rate_currency (snd ir) \<and>
           q_package_rates q = map (\<lambda>ir. package_rate_of (fst ir) (snd ir)) (ir # irs)"
proof -
  from assms obtain k g where q: "q = to_quote N (k, g)"
    and g: "map_of (group_rates N shipments) k = Some g"
    by (auto simp add: aggregate_set)
  from g obtain ir irs where "offers_under k shipments = ir # irs"
    and "g = extend_group N (new_group N (snd ir)) (ir # irs)"
    by (rule group_entry)
  with q show ?thesis
    by (simp add: to_quote_def extend_group_def new_group_def)
qed

text \<open>No two quotes of a result have the same key.\<close>

lemma aggregate_distinct_keys: "distinct (map q_key (aggregate N n shipments))"
proof -
  have "map q_key (aggregate N n shipments) =
      map fst (filter (\<lambda>kv. length (g_package_rates (snd kv)) = n) (group_rates N shipments))"
    by (simp add: aggregate_def completeRates_def to_quote_def comp_def)
  then show ?thesis
    using distinct_group_rates [of N shipments] by (simp add: distinct_map_filter)
qed

text \<open>With no key twice in the rates of one shipment, a shipment has at most one offer under a key.\<close>

lemma length_filter_distinct_key:
  assumes "distinct (map rate_key rs)"
  shows "length (filter (\<lambda>r. rate_key r = k) rs) = (if k \<in> rate_key ` set rs then 1 else 0)"
  using assms by (induction rs) auto

lemma length_offers_under:
  "length (offers_under k shipments) =
     sum_list (map (\<lambda>s. length (filter (\<lambda>r. rate_key r = k) (sh_rates s))) shipments)"
  by (induction shipments)
     (simp_all add: offers_under_def offers_def filter_map comp_def)

lemma sum_list_le_length:
  assumes "\<forall>x \<in> set xs. x \<le> (1::nat)"
  shows "sum_list xs \<le> length xs"
  using assms by (induction xs) auto

lemma sum_list_at_most_one:
  assumes "\<forall>x \<in> set xs. x \<le> (1::nat)"
  shows "sum_list xs = length xs \<longleftrightarrow> (\<forall>x \<in> set xs. x = 1)"
  using assms
proof (induction xs)
  case Nil
  show ?case by simp
next
  case (Cons x xs)
  then have "sum_list xs \<le> length xs"
    by (simp add: sum_list_le_length)
  with Cons show ?case
    by auto
qed

text \<open>
  When no shipment lists a key twice and there is one shipment per package (at least one), a
  key is returned exactly when every shipment has an offer under it.
\<close>

lemma aggregate_key_iff_every_package:
  assumes "\<forall>s \<in> set shipments. distinct (map rate_key (sh_rates s))"
    and "length shipments = n" and "0 < n"
  shows "k \<in> q_key ` set (aggregate N n shipments) \<longleftrightarrow>
           (\<forall>s \<in> set shipments. k \<in> rate_key ` set (sh_rates s))"
proof -
  let ?c = "\<lambda>s. length (filter (\<lambda>r. rate_key r = k) (sh_rates s))"
  have c: "?c s = (if k \<in> rate_key ` set (sh_rates s) then 1 else 0)" if "s \<in> set shipments" for s
    using assms(1) that by (simp add: length_filter_distinct_key)
  then have "\<forall>x \<in> set (map ?c shipments). x \<le> 1"
    by auto
  from sum_list_at_most_one [OF this]
  have "length (offers_under k shipments) = n \<longleftrightarrow> (\<forall>s \<in> set shipments. ?c s = 1)"
    using assms(2) by (simp add: length_offers_under)
  also have "\<dots> \<longleftrightarrow> (\<forall>s \<in> set shipments. k \<in> rate_key ` set (sh_rates s))"
    using c by auto
  finally have "length (offers_under k shipments) = n \<longleftrightarrow>
      (\<forall>s \<in> set shipments. k \<in> rate_key ` set (sh_rates s))" .
  moreover have "offers_under k shipments \<noteq> []" if "length (offers_under k shipments) = n"
    using that assms(3) by auto
  ultimately show ?thesis
    by (auto simp add: aggregate_key_iff)
qed

text \<open>When every shipment is created, the handler answers with the aggregated quotes.\<close>

lemma first_rejection_fulfilled [simp]: "first_rejection order (map Inr vs) = None"
  by (induction order) simp_all

lemma fulfilled_map_Inr [simp]: "fulfilled (map Inr vs) = vs"
  by (induction vs) simp_all

lemma numbers_ex_env [simp]: "numbers (ex_env carrier) = ex_numbers"
  by (simp add: ex_env_def)

lemma rates_handler_fulfilled:
  assumes "fst (shipmentPromises E (rq_destination req) w 0 (rq_packages req)) = map Inr shipments"
    and "set [0..<length shipments] \<subseteq> set order"
  shows "fst (rates_handler E order w req) =
           Some (Response 200 (Rates_body (aggregate (numbers E) (length (rq_packages req)) shipments)))"
proof -
  have "fst (getRatesForPackages E order w (rq_packages req) (rq_destination req)) =
      Some (Inr (aggregate (numbers E) (length (rq_packages req)) shipments))"
    using assms(2) unfolding getRatesForPackages_def case_prod_beta assms(1)
    by (simp add: promise_all_def)
  then show ?thesis
    by (cases "getRatesForPackages E order w (rq_packages req) (rq_destination req)")
       (simp add: rates_handler_def)
qed

text \<open>
  Claim C1, at inputs where the code departs from it. The carrier returns two rates under
  the key \<open>USPS-usps_priority\<close> for the first shipment and no rate for any later one.
  With two packages the entry for the key holds two references, as many as there are
  packages, and the quote is returned, though the second package has no offer under the key
  (both references are for package 0). With one package the entry holds two references, not
  one, and no quote is returned, though the only package has an offer under the key.
\<close>

theorem quote_gate_counts_offers:
  "fst (rates_handler (ex_env carrier_two_rates_first) [0, 1] ex_world
         \<lparr> rq_packages = [ex_package, ex_package], rq_destination = ex_destination \<rparr>) =
     Some (Response 200 (Rates_body
       [\<lparr> q_key = ''USPS-usps_priority'', q_provider = ''USPS'',
           q_servicelevel = \<lparr> sl_name = ''usps_priority'', sl_token = ''usps_priority'' \<rparr>,
           q_estimated_days = Some 3, q_amount = ''12.50'', q_currency = ''USD'',
           q_package_rates =
             [\<lparr> pr_packageIndex = 0, pr_rate_id = ''rate_a'', pr_amount = ''5.00'' \<rparr>,
              \<lparr> pr_packageIndex = 0, pr_rate_id = ''rate_b'', pr_amount = ''7.50'' \<rparr>] \<rparr>])) \<and>
   shipment_of 1 (shipment_reply (ex_env carrier_two_rates_first) ex_world
       [ex_package, ex_package] ex_destination 1) =
     Inr \<lparr> sh_packageIndex = 1, sh_shipment_id = ''obj'', sh_rates = [] \<rparr> \<and>
   fst (rates_handler (ex_env carrier_two_rates_first) [0] ex_world
         \<lparr> rq_packages = [ex_package], rq_destination = ex_destination \<rparr>) =
     Some (Response 200 (Rates_body [])) \<and>
   shipment_of 0 (shipment_reply (ex_env carrier_two_rates_first) ex_world
       [ex_package] ex_destination 0) =
     Inr \<lparr> sh_packageIndex = 0, sh_shipment_id = ''obj'',
           sh_rates = [ex_rate ''USPS'' ''usps_priority'' ''5.00'' ''rate_a'',
                       ex_rate ''USPS'' ''usps_priority'' ''7.50'' ''rate_b''] \<rparr>"
proof -
  let ?E = "ex_env carrier_two_rates_first"
  let ?first = "\<lparr> sh_packageIndex = 0, sh_shipment_id = ''obj'',
                   sh_rates = [ex_rate ''USPS'' ''usps_priority'' ''5.00'' ''rate_a'',
                               ex_rate ''USPS'' ''usps_priority'' ''7.50'' ''rate_b''] \<rparr>"
  let ?second = "\<lparr> sh_packageIndex = 1, sh_shipment_id = ''obj'', sh_rates = [] \<rparr>"
  let ?two = "\<lparr> rq_packages = [ex_package, ex_package], rq_destination = ex_destination \<rparr>"
  let ?one = "\<lparr> rq_packages = [ex_package], rq_destination = ex_destination \<rparr>"
  have "fst (shipmentPromises ?E (rq_destination ?two) ex_world 0 (rq_packages ?two)) =
      map Inr [?first, ?second]"
    by (simp add: shippoRequest_def shipment_of_def ex_env_def ex_world_def
        carrier_two_rates_first_def ex_data_def)
  from rates_handler_fulfilled [OF this, of "[0, 1]"]
  have two: "fst (rates_handler ?E [0, 1] ex_world ?two) =
      Some (Response 200 (Rates_body (aggregate ex_numbers 2 [?first, ?second])))"
    by (simp add: upt_rec numeral_2_eq_2)
  have "fst (shipmentPromises ?E (rq_destination ?one) ex_world 0 (rq_packages ?one)) =
      map Inr [?first]"
    by (simp add: shippoRequest_def shipment_of_def ex_env_def ex_world_def
        carrier_two_rates_first_def ex_data_def)
  from rates_handler_fulfilled [OF this, of "[0]"]
  have one: "fst (rates_handler ?E [0] ex_world ?one) =
      Some (Response 200 (Rates_body (aggregate ex_numbers 1 [?first])))"
    by simp
  have amount: "toFixed2 ex_numbers
      (num_add ex_numbers (num_add ex_numbers (num_zero ex_numbers) (parseFloat ex_numbers ''5.00''))
         (parseFloat ex_numbers ''7.50'')) = ''12.50''"
    by (simp add: ex_numbers_def)
  have quotes2: "aggregate ex_numbers 2 [?first, ?second] =
       [\<lparr> q_key = ''USPS-usps_priority'', q_provider = ''USPS'',
           q_servicelevel = \<lparr> sl_name = ''usps_priority'', sl_token = ''usps_priority'' \<rparr>,
           q_estimated_days = Some 3, q_amount = ''12.50'', q_currency = ''USD'',
           q_package_rates =
             [\<lparr> pr_packageIndex = 0, pr_rate_id = ''rate_a'', pr_amount = ''5.00'' \<rparr>,
              \<lparr> pr_packageIndex = 0, pr_rate_id = ''rate_b'', pr_amount = ''7.50'' \<rparr>] \<rparr>]"
    using amount
    by (simp add: aggregate_def completeRates_def group_rates_def add_shipment_def add_rate_def
        package_rate_of_def new_group_def rate_key_def to_quote_def ex_rate_def)
  have quotes1: "aggregate ex_numbers 1 [?first] = []"
    by (simp add: aggregate_def completeRates_def group_rates_def add_shipment_def add_rate_def
        package_rate_of_def new_group_def rate_key_def ex_rate_def)
  have second: "shipment_of 1 (shipment_reply ?E ex_world [ex_package, ex_package] ex_destination 1) =
      Inr ?second"
    by (simp add: shipment_reply_def shipment_of_def ex_env_def ex_world_def
        carrier_two_rates_first_def ex_data_def)
  have first: "shipment_of 0 (shipment_reply ?E ex_world [ex_package] ex_destination 0) = Inr ?first"
    by (simp add: shipment_reply_def shipment_of_def ex_env_def ex_world_def
        carrier_two_rates_first_def ex_data_def)
  from two one second first show ?thesis
    by (simp only: quotes2 quotes1 simp_thms)
qed


text \<open>
  Claim C9. Offers are grouped by the text made of the provider, a hyphen and the service
  level token. Let the first package have one offer \<open>r1\<close> and the second one offer \<open>r2\<close>. When
  the two offers give the same text, the result is a single quote under that text: provider,
  service level, estimated days and currency are those of \<open>r1\<close>, the offer met first, the
  amount is made of both amounts and the references are those of both offers. When they give
  different texts the offers stay apart, and no quote is returned.
\<close>

theorem colliding_keys_merge:
  "aggregate N 2
     [\<lparr> sh_packageIndex = 0, sh_shipment_id = id0, sh_rates = [r1] \<rparr>,
      \<lparr> sh_packageIndex = 1, sh_shipment_id = id1, sh_rates = [r2] \<rparr>] =
   (if rate_provider r1 @ ''-'' @ sl_token (rate_servicelevel r1) =
       rate_provider r2 @ ''-'' @ sl_token (rate_servicelevel r2)
    then [\<lparr> q_key = rate_provider r1 @ ''-'' @ sl_token (rate_servicelevel r1),
             q_provider = rate_provider r1,
             q_servicelevel = rate_servicelevel r1,
             q_estimated_days = rate_estimated_days r1,
             q_amount = toFixed2 N (num_add N (num_add N (num_zero N) (parseFloat N (rate_amount r1)))
                                      (parseFloat N (rate_amount r2))),
             q_currency = rate_currency r1,
             q_package_rates =
               [\<lparr> pr_packageIndex = 0, pr_rate_id = rate_object_id r1, pr_amount = rate_amount r1 \<rparr>,
                \<lparr> pr_packageIndex = 1, pr_rate_id = rate_object_id r2, pr_amount = rate_amount r2 \<rparr>] \<rparr>]
    else [])"
  by (simp add: aggregate_def completeRates_def group_rates_def add_shipment_def add_rate_def
      package_rate_of_def new_group_def to_quote_def rate_key_def)

text \<open>
  The theorem at provider \<open>A-B\<close> with token \<open>c\<close> and provider \<open>A\<close> with token \<open>B-c\<close>:
  two different (provider, token) pairs, one text, one quote. And at provider \<open>A-B\<close> with
  token \<open>c\<close> and provider \<open>A\<close> with token \<open>B-d\<close>: two texts, no quote.
\<close>

theorem colliding_keys_merge_witness:
  "(rate_provider (ex_rate ''A-B'' ''c'' ''5.00'' ''rate_1''),
    sl_token (rate_servicelevel (ex_rate ''A-B'' ''c'' ''5.00'' ''rate_1''))) \<noteq>
   (rate_provider (ex_rate ''A'' ''B-c'' ''7.50'' ''rate_2''),
    sl_token (rate_servicelevel (ex_rate ''A'' ''B-c'' ''7.50'' ''rate_2''))) \<and>
   aggregate ex_numbers 2
     [\<lparr> sh_packageIndex = 0, sh_shipment_id = ''s0'', sh_rates = [ex_rate ''A-B'' ''c'' ''5.00'' ''rate_1''] \<rparr>,
      \<lparr> sh_packageIndex = 1, sh_shipment_id = ''s1'', sh_rates = [ex_rate ''A'' ''B-c'' ''7.50'' ''rate_2''] \<rparr>] =
     [\<lparr> q_key = ''A-B-c'', q_provider = ''A-B'',
         q_servicelevel = \<lparr> sl_name = ''c'', sl_token = ''c'' \<rparr>,
         q_estimated_days = Some 3, q_amount = ''12.50'', q_currency = ''USD'',
         q_package_rates =
           [\<lparr> pr_packageIndex = 0, pr_rate_id = ''rate_1'', pr_amount = ''5.00'' \<rparr>,
            \<lparr> pr_packageIndex = 1, pr_rate_id = ''rate_2'', pr_amount = ''7.50'' \<rparr>] \<rparr>] \<and>
   aggregate ex_numbers 2
     [\<lparr> sh_packageIndex = 0, sh_shipment_id = ''s0'', sh_rates = [ex_rate ''A-B'' ''c'' ''5.00'' ''rate_1''] \<rparr>,
      \<lparr> sh_packageIndex = 1, sh_shipment_id = ''s1'', sh_rates = [ex_rate ''A'' ''B-d'' ''7.50'' ''rate_2''] \<rparr>] =
     []"
proof -
  have amount: "toFixed2 ex_numbers
      (num_add ex_numbers (num_add ex_numbers (num_zero ex_numbers) (parseFloat ex_numbers ''5.00''))
         (parseFloat ex_numbers ''7.50'')) = ''12.50''"
    by (simp add: ex_numbers_def)
  from colliding_keys_merge [of ex_numbers "''s0''" "ex_rate ''A-B'' ''c'' ''5.00'' ''rate_1''"
      "''s1''" "ex_rate ''A'' ''B-c'' ''7.50'' ''rate_2''"]
    colliding_keys_merge [of ex_numbers "''s0''" "ex_rate ''A-B'' ''c'' ''5.00'' ''rate_1''"
      "''s1''" "ex_rate ''A'' ''B-d'' ''7.50'' ''rate_2''"]
    amount
  show ?thesis
    by (simp add: ex_rate_def)
qed


end
